theory Spec2Isabelle
  imports Complex_Main "HOL-Library.Word" "HOL-Library.Log_Nat" "HOL-Library.Monad_Syntax"
begin

chapter \<open>AI Image and Story Generator: orchestration core, gateway and compositor\<close>

text \<open>
  The development embeds three source files: the gateway module
  (\<^verbatim>\<open>services/geminiService\<close>), the main component \<^verbatim>\<open>App.tsx\<close> and the story
  component \<^verbatim>\<open>components/StoryWriter.tsx\<close>.  The first part holds the model, the
  second part the properties.
\<close>

section \<open>JavaScript strings\<close>

text \<open>
  A JavaScript string is a sequence of UTF-16 code units.  Regular expressions without
  the \<^verbatim>\<open>u\<close> flag, \<^verbatim>\<open>split\<close>, \<^verbatim>\<open>includes\<close> and \<^verbatim>\<open>trim\<close> all work on code units,
  so a string is a list of 16-bit words.  \<open>js\<close> embeds an ASCII literal.
\<close>

type_synonym jschar = "16 word"
type_synonym jsstring = "jschar list"

definition js :: "string \<Rightarrow> jsstring" where
  "js s = map of_char s"

definition comma :: jschar where "comma = 0x2C"
definition colon :: jschar where "colon = 0x3A"
definition semicolon :: jschar where "semicolon = 0x3B"

text \<open>The line terminators of ECMAScript: the characters the regular expression \<^verbatim>\<open>.\<close> refuses.\<close>

definition is_line_terminator :: "jschar \<Rightarrow> bool" where
  "is_line_terminator c = (c = 0x0A \<or> c = 0x0D \<or> c = 0x2028 \<or> c = 0x2029)"

text \<open>White space as \<^verbatim>\<open>String.prototype.trim\<close> strips it (WhiteSpace and LineTerminator).\<close>

definition is_white_space :: "jschar \<Rightarrow> bool" where
  "is_white_space c =
     (c = 0x09 \<or> c = 0x0A \<or> c = 0x0B \<or> c = 0x0C \<or> c = 0x0D \<or> c = 0x20 \<or> c = 0xA0 \<or>
      c = 0x1680 \<or> (0x2000 \<le> c \<and> c \<le> 0x200A) \<or> c = 0x2028 \<or> c = 0x2029 \<or>
      c = 0x202F \<or> c = 0x205F \<or> c = 0x3000 \<or> c = 0xFEFF)"

definition trim :: "jsstring \<Rightarrow> jsstring" where
  "trim s = rev (dropWhile is_white_space (rev (dropWhile is_white_space s)))"

text \<open>\<^verbatim>\<open>s.startsWith(t)\<close> and \<^verbatim>\<open>s.includes(t)\<close>.\<close>

fun startsWith :: "jsstring \<Rightarrow> jsstring \<Rightarrow> bool" where
  "startsWith s [] = True"
| "startsWith [] (t # ts) = False"
| "startsWith (c # cs) (t # ts) = (c = t \<and> startsWith cs ts)"

fun str_includes :: "jsstring \<Rightarrow> jsstring \<Rightarrow> bool" where
  "str_includes [] t = (t = [])"
| "str_includes (c # cs) t = (startsWith (c # cs) t \<or> str_includes cs t)"

text \<open>
  \<^verbatim>\<open>s.split(sep)\<close> for a one-character separator: the pieces between the separators,
  never an empty array (\<^verbatim>\<open>"".split(",")\<close> is \<^verbatim>\<open>[""]\<close>).
\<close>

fun split :: "jschar \<Rightarrow> jsstring \<Rightarrow> jsstring list" where
  "split sep [] = [[]]"
| "split sep (c # cs) =
     (if c = sep then [] # split sep cs
      else (case split sep cs of
              [] \<Rightarrow> [[c]]
            | piece # pieces \<Rightarrow> (c # piece) # pieces))"

text \<open>\<^verbatim>\<open>s.replace(/["']/g, "")\<close>: every double and single quote is removed.\<close>

definition strip_quotes :: "jsstring \<Rightarrow> jsstring" where
  "strip_quotes s = filter (\<lambda>c. c \<noteq> 0x22 \<and> c \<noteq> 0x27) s"

text \<open>The double quote and the line feed, as one-character strings.\<close>

definition dquote :: jsstring where
  "dquote = [0x22]"

definition newline :: jsstring where
  "newline = [0x0A]"

text \<open>The decimal rendering of an array index inside a template literal.\<close>

fun decimal :: "nat \<Rightarrow> jsstring" where
  "decimal n =
     (if n < 10 then [0x30 + of_nat n]
      else decimal (n div 10) @ [0x30 + of_nat (n mod 10)])"

declare decimal.simps [simp del]

section \<open>Data URL codec\<close>

text \<open>
  \<^verbatim>\<open>header.match(/:(.*?);/)?.[1]\<close>.  \<open>lazy_group\<close> is the lazy group \<^verbatim>\<open>(.*?)\<close> followed
  by \<^verbatim>\<open>;\<close>, tried at one position: it grows one character at a time, stops at the first
  semicolon and fails at a line terminator or at the end of the input.  \<open>match_mime\<close>
  tries every colon from the left, as the matcher does.
\<close>

fun lazy_group :: "jsstring \<Rightarrow> jsstring option" where
  "lazy_group [] = None"
| "lazy_group (c # cs) =
     (if c = semicolon then Some []
      else if is_line_terminator c then None
      else map_option ((#) c) (lazy_group cs))"

fun match_mime :: "jsstring \<Rightarrow> jsstring option" where
  "match_mime [] = None"
| "match_mime (c # cs) =
     (if c = colon
      then (case lazy_group cs of Some g \<Rightarrow> Some g | None \<Rightarrow> match_mime cs)
      else match_mime cs)"

datatype js_error = TypeError

record parsed_data_url =
  mimeType :: jsstring
  payload :: "jsstring option"

text \<open>
  \<^verbatim>\<open>parseDataUrl\<close>.  The destructuring \<^verbatim>\<open>[header, data] = dataUrl.split(',')\<close> leaves
  \<^verbatim>\<open>data\<close> undefined when there is no comma (\<open>payload = None\<close>); were the array empty,
  \<^verbatim>\<open>header.match\<close> would throw a TypeError.
\<close>

definition parseDataUrl :: "jsstring \<Rightarrow> js_error + parsed_data_url" where
  "parseDataUrl dataUrl =
     (case split comma dataUrl of
        [] \<Rightarrow> Inl TypeError
      | header # rest \<Rightarrow>
          Inr \<lparr> mimeType = (case match_mime header of Some m \<Rightarrow> m | None \<Rightarrow> js ''image/png''),
                payload = (case rest of [] \<Rightarrow> None | d # _ \<Rightarrow> Some d) \<rparr>)"

section \<open>JavaScript numbers\<close>

text \<open>
  A finite JavaScript number is an IEEE 754 double: zero, or a number \<open>\<plusminus> m * 2 ^ (e - 52)\<close>
  with \<open>2 ^ 52 \<le> m < 2 ^ 53\<close>.  Every arithmetic operation computes the exact result and
  rounds it to the nearest double, ties to the even significand (\<open>fl\<close>).  The model covers
  the normal range; a result that leaves it (a subnormal, an overflow, a division by zero,
  NaN) is \<open>None\<close>.
\<close>

definition pow2 :: "int \<Rightarrow> real" where
  "pow2 k = (if 0 \<le> k then 2 ^ nat k else 1 / 2 ^ nat (- k))"

text \<open>The binary exponent of a positive number: \<open>2 ^ e \<le> x < 2 ^ (e + 1)\<close>.\<close>

definition exponent :: "real \<Rightarrow> int" where
  "exponent x = (if 1 \<le> x then bitlen \<lfloor>x\<rfloor> - 1 else - bitlen (\<lceil>1 / x\<rceil> - 1))"

definition round_half_even :: "real \<Rightarrow> int" where
  "round_half_even y =
     (let f = \<lfloor>y\<rfloor>; r = y - of_int f in
      if r < 1 / 2 then f else if 1 / 2 < r then f + 1 else if even f then f else f + 1)"

definition fl :: "real \<Rightarrow> real option" where
  "fl x =
     (if x = 0 then Some 0
      else let e = exponent \<bar>x\<bar> in
           if e < - 1022 then None
           else let r = of_int (round_half_even (\<bar>x\<bar> * pow2 (52 - e))) * pow2 (e - 52) in
                if pow2 1024 \<le> r then None else Some (sgn x * r))"

definition js_div :: "real \<Rightarrow> real \<Rightarrow> real option" where
  "js_div a b = (if b = 0 then None else fl (a / b))"

definition js_mul :: "real \<Rightarrow> real \<Rightarrow> real option" where
  "js_mul a b = fl (a * b)"

definition js_sub :: "real \<Rightarrow> real \<Rightarrow> real option" where
  "js_sub a b = fl (a - b)"

text \<open>\<^verbatim>\<open>Math.round\<close>: the nearest integer, a tie going up.\<close>

definition Math_round :: "real \<Rightarrow> int" where
  "Math_round x = \<lfloor>x + 1 / 2\<rfloor>"

text \<open>
  \<^verbatim>\<open>Number(s)\<close> on the pieces of an aspect ratio: white space is stripped, the empty
  string is 0 and a string of decimal digits is its value, rounded to a double.  Every
  other string is \<open>None\<close>: it is NaN, or a numeral form (sign, fraction, exponent, radix
  prefix, \<^verbatim>\<open>Infinity\<close>) that no aspect ratio of the application has.
\<close>

definition is_digit :: "jschar \<Rightarrow> bool" where
  "is_digit c = (0x30 \<le> c \<and> c \<le> 0x39)"

definition digits_value :: "jsstring \<Rightarrow> nat" where
  "digits_value s = foldl (\<lambda>n c. 10 * n + unat (c - 0x30)) 0 s"

definition js_Number :: "jsstring \<Rightarrow> real option" where
  "js_Number s =
     (let t = trim s in
      if t = [] then Some 0
      else if list_all is_digit t then fl (of_nat (digits_value t))
      else None)"

section \<open>Image compositor\<close>

text \<open>
  The canvas after \<^verbatim>\<open>drawImage\<close>: its size, and where the source image was drawn.
  Assigning \<^verbatim>\<open>canvas.width\<close> or \<^verbatim>\<open>canvas.height\<close> keeps an integer from 0 to
  \<open>2 ^ 31 - 1\<close>; what the DOM does with any other number is not modelled (\<open>None\<close>).
\<close>

record layout =
  canvasWidth :: int
  canvasHeight :: int
  xOffset :: real
  yOffset :: real

definition canvas_size :: "int \<Rightarrow> int option" where
  "canvas_size n = (if 0 \<le> n \<and> n \<le> 2147483647 then Some n else None)"

text \<open>
  The geometry of \<^verbatim>\<open>expandImage\<close>, from the intrinsic size of the loaded image and the
  target aspect ratio string.
\<close>

definition expandImage_layout :: "nat \<Rightarrow> nat \<Rightarrow> jsstring \<Rightarrow> layout option" where
  "expandImage_layout originalWidth originalHeight targetAspectRatio =
     do {
       originalRatio \<leftarrow> js_div (of_nat originalWidth) (of_nat originalHeight);
       (case map js_Number (split colon targetAspectRatio) of
          Some targetW # Some targetH # _ \<Rightarrow>
            do {
              targetRatio \<leftarrow> js_div targetW targetH;
              if targetRatio > originalRatio then
                do {
                  height \<leftarrow> canvas_size (int originalHeight);
                  product \<leftarrow> js_mul (of_nat originalHeight) targetRatio;
                  width \<leftarrow> canvas_size (Math_round product);
                  difference \<leftarrow> js_sub (of_int width) (of_nat originalWidth);
                  x \<leftarrow> js_div difference 2;
                  Some \<lparr> canvasWidth = width, canvasHeight = height, xOffset = x, yOffset = 0 \<rparr>
                }
              else
                do {
                  width \<leftarrow> canvas_size (int originalWidth);
                  quotient \<leftarrow> js_div (of_nat originalWidth) targetRatio;
                  height \<leftarrow> canvas_size (Math_round quotient);
                  difference \<leftarrow> js_sub (of_int height) (of_nat originalHeight);
                  y \<leftarrow> js_div difference 2;
                  Some \<lparr> canvasWidth = width, canvasHeight = height, xOffset = 0, yOffset = y \<rparr>
                }
            }
        | _ \<Rightarrow> None)
     }"

section \<open>The environment of the program\<close>

text \<open>
  What the backend answers, what the browser does and the tables of the constants module
  (which is not among the source files) are taken as parameters of the model.  A value
  thrown by a call is an \<^verbatim>\<open>Error\<close> object with its message, some other value (whose
  \<^verbatim>\<open>message\<close> property may be undefined), or \<^verbatim>\<open>null\<close>/\<^verbatim>\<open>undefined\<close>.
\<close>

datatype thrown = JsError jsstring | NonError "jsstring option" | Nullish

datatype part = InlineData jsstring "jsstring option" | TextPart jsstring

datatype contents = Parts "part list" | Plain jsstring

record images_request =
  ir_model :: jsstring
  ir_prompt :: jsstring
  numberOfImages :: nat
  ir_aspectRatio :: jsstring
  outputMimeType :: jsstring

record content_request =
  cr_model :: jsstring
  cr_contents :: contents
  imageConfig :: "jsstring option"

datatype request = GenerateImages images_request | GenerateContent content_request

datatype response_part = InlineImage jsstring jsstring | NoInlineData

record content_response =
  candidate_parts :: "response_part list option"
  resp_text :: "jsstring option"

datatype image_load = Loaded nat nat | LoadError

record upload_file =
  file_type :: jsstring
  file_name :: jsstring

record env =
  generateImages :: "images_request \<Rightarrow> thrown + jsstring list"
  generateContent :: "content_request \<Rightarrow> thrown + content_response"
  STYLE_PROMPT_PREFIXES :: "jsstring \<Rightarrow> jsstring"
  IMAGE_STYLES :: "(jsstring \<times> jsstring) list"
  storedKey :: "jsstring option"
  envApiKey :: "jsstring option"
  hasSelectedApiKey :: "thrown + bool"
  openSelectKey :: "thrown + unit"
  scrollIntoViewThrows :: bool
  scrollIntoViewError :: thrown
  controlsElement :: bool
  loadImage :: "jsstring \<Rightarrow> image_load"
  canvasContext :: bool
  toDataURL :: "jsstring \<Rightarrow> nat \<Rightarrow> nat \<Rightarrow> layout option \<Rightarrow> thrown + jsstring"
  blobToBase64 :: "upload_file \<Rightarrow> thrown + jsstring"
  typeErrorMessage :: jsstring
  designRejectsFirst :: bool

text \<open>
  Of the page: whether a call of \<^verbatim>\<open>scrollIntoView\<close> throws and the value it throws
  (\<open>scrollIntoViewThrows\<close>, \<open>scrollIntoViewError\<close>), and whether
  \<^verbatim>\<open>document.getElementById('controls')\<close> finds an element (\<open>controlsElement\<close>).
\<close>

text \<open>
  The result of a gateway function: how its promise settles (\<open>Inl\<close> a rejection), and the
  requests it sent to the backend, in order.
\<close>

type_synonym 'a gateway = "(thrown + 'a) \<times> request list"

section \<open>Backend gateway\<close>

text \<open>
  The loop over \<^verbatim>\<open>response.candidates?.[0]?.content?.parts ?? []\<close> that collects every
  inline image as a data URL.
\<close>

fun collect_images :: "response_part list \<Rightarrow> jsstring list" where
  "collect_images [] = []"
| "collect_images (InlineImage m d # ps) = (js ''data:'' @ m @ js '';base64,'' @ d) # collect_images ps"
| "collect_images (NoInlineData # ps) = collect_images ps"

definition response_images :: "content_response \<Rightarrow> jsstring list" where
  "response_images r = collect_images (case candidate_parts r of None \<Rightarrow> [] | Some ps \<Rightarrow> ps)"

text \<open>\<^verbatim>\<open>response.text || ""\<close>.\<close>

definition text_or_empty :: "content_response \<Rightarrow> jsstring" where
  "text_or_empty r = (case resp_text r of None \<Rightarrow> [] | Some t \<Rightarrow> t)"

text \<open>A text request: one \<^verbatim>\<open>generateContent\<close> call whose answer is post-processed by \<open>f\<close>.\<close>

definition ask :: "env \<Rightarrow> content_request \<Rightarrow> (content_response \<Rightarrow> thrown + 'a) \<Rightarrow> 'a gateway" where
  "ask e req f =
     (case generateContent e req of
        Inl err \<Rightarrow> (Inl err, [GenerateContent req])
      | Inr r \<Rightarrow> (f r, [GenerateContent req]))"

definition generateFromText ::
  "env \<Rightarrow> jsstring \<Rightarrow> nat \<Rightarrow> jsstring \<Rightarrow> jsstring \<Rightarrow> jsstring \<Rightarrow> jsstring list gateway" where
  "generateFromText e prompt count aspectRatio style model =
     (let fullPrompt = STYLE_PROMPT_PREFIXES e style @ js '' '' @ prompt in
      if model = js ''imagen-4.0-generate-001'' then
        (let req = \<lparr> ir_model = model, ir_prompt = fullPrompt, numberOfImages = count,
                     ir_aspectRatio = aspectRatio, outputMimeType = js ''image/png'' \<rparr> in
         case generateImages e req of
           Inl err \<Rightarrow> (Inl err, [GenerateImages req])
         | Inr generatedImages \<Rightarrow>
             (Inr (map (\<lambda>imageBytes. js ''data:image/png;base64,'' @ imageBytes) generatedImages),
              [GenerateImages req]))
      else if str_includes model (js ''gemini'') \<or> str_includes model (js ''flash'')
              \<or> str_includes model (js ''pro'') then
        ask e \<lparr> cr_model = model, cr_contents = Parts [TextPart fullPrompt],
                imageConfig = Some aspectRatio \<rparr>
          (\<lambda>response.
             let images = response_images response in
             if images = []
             then Inl (JsError (js ''Generation failed. Ensure your API Key is valid and the model supports image generation.''))
             else Inr images)
      else (Inl (JsError (js ''Unsupported model: '' @ model)), []))"

text \<open>The parts of an image request: every reference image decoded, then the text.\<close>

fun reference_parts :: "env \<Rightarrow> jsstring list \<Rightarrow> thrown + part list" where
  "reference_parts e [] = Inr []"
| "reference_parts e (refImage # refs) =
     (case parseDataUrl refImage of
        Inl _ \<Rightarrow> Inl (JsError (typeErrorMessage e))
      | Inr p \<Rightarrow>
          (case reference_parts e refs of
             Inl err \<Rightarrow> Inl err
           | Inr ps \<Rightarrow> Inr (InlineData (mimeType p) (payload p) # ps)))"

definition generateFromImageAndText :: "env \<Rightarrow> jsstring \<Rightarrow> jsstring list \<Rightarrow> jsstring list gateway" where
  "generateFromImageAndText e prompt referenceImages =
     (case reference_parts e referenceImages of
        Inl err \<Rightarrow> (Inl err, [])
      | Inr ps \<Rightarrow>
          ask e \<lparr> cr_model = js ''gemini-2.5-flash-image'', cr_contents = Parts (ps @ [TextPart prompt]),
                  imageConfig = None \<rparr>
            (\<lambda>response.
               let images = response_images response in
               if images = [] then Inl (JsError (js ''Generation failed. No image returned.''))
               else Inr images))"

text \<open>
  The requests of one image with an instruction.  \<^verbatim>\<open>suggestCaption\<close> declares two
  parameters (the image and the model) and its instruction is a fixed text.
\<close>

definition image_question :: "env \<Rightarrow> jsstring \<Rightarrow> jsstring \<Rightarrow> jsstring \<Rightarrow> (content_response \<Rightarrow> thrown + 'a) \<Rightarrow> 'a gateway" where
  "image_question e imageSrc model instruction f =
     (case parseDataUrl imageSrc of
        Inl _ \<Rightarrow> (Inl (JsError (typeErrorMessage e)), [])
      | Inr p \<Rightarrow>
          ask e \<lparr> cr_model = model,
                  cr_contents = Parts [InlineData (mimeType p) (payload p), TextPart instruction],
                  imageConfig = None \<rparr> f)"

definition describeImage :: "env \<Rightarrow> jsstring \<Rightarrow> jsstring \<Rightarrow> jsstring gateway" where
  "describeImage e imageSrc model =
     image_question e imageSrc model
       (js ''Describe this image in detail. Focus on creating a descriptive prompt that could be used for a text-to-image AI.'')
       (\<lambda>response. Inr (text_or_empty response))"

definition suggestCaption :: "env \<Rightarrow> jsstring \<Rightarrow> jsstring \<Rightarrow> jsstring gateway" where
  "suggestCaption e imageSrc model =
     image_question e imageSrc model
       (js ''Suggest a short, witty, and engaging caption for this image suitable for social media. Respond with only the caption text.'')
       (\<lambda>response. Inr (strip_quotes (text_or_empty response)))"

definition text_question :: "env \<Rightarrow> jsstring \<Rightarrow> jsstring \<Rightarrow> (content_response \<Rightarrow> thrown + 'a) \<Rightarrow> 'a gateway" where
  "text_question e model instruction f =
     ask e \<lparr> cr_model = model, cr_contents = Plain instruction, imageConfig = None \<rparr> f"

definition enhancePrompt :: "env \<Rightarrow> jsstring \<Rightarrow> jsstring \<Rightarrow> jsstring gateway" where
  "enhancePrompt e prompt model =
     text_question e model
       (js ''Enhance the following text-to-image prompt to make it more vivid, detailed, and imaginative. Original: ''
          @ dquote @ prompt @ dquote)
       (\<lambda>response. Inr (strip_quotes (text_or_empty response)))"

definition generateConcept :: "env \<Rightarrow> jsstring \<Rightarrow> jsstring \<Rightarrow> jsstring gateway" where
  "generateConcept e story model =
     text_question e model
       (js ''Convert this story into a concise text-to-image prompt: '' @ dquote @ story @ dquote)
       (\<lambda>response. Inr (text_or_empty response))"

datatype story_language = thai | english | contextual

datatype caption_language = English | Thai

definition langMap :: "story_language \<Rightarrow> jsstring" where
  "langMap language = (case language of thai \<Rightarrow> js ''Thai'' | english \<Rightarrow> js ''English'' | contextual \<Rightarrow> js ''contextual'')"

definition language_name :: "caption_language \<Rightarrow> jsstring" where
  "language_name l = (case l of English \<Rightarrow> js ''English'' | Thai \<Rightarrow> js ''Thai'')"

definition generateNextSentence :: "env \<Rightarrow> jsstring \<Rightarrow> story_language \<Rightarrow> jsstring \<Rightarrow> jsstring \<Rightarrow> jsstring gateway" where
  "generateNextSentence e story language style model =
     text_question e model
       (js ''Continue this story with ONE sentence. Lang: '' @ langMap language @ js ''. Style: '' @ style
          @ js ''.'' @ newline @ js ''Story: '' @ story)
       (\<lambda>response. Inr (trim (text_or_empty response)))"

text \<open>
  \<^verbatim>\<open>generateStoryCaption\<close> declares three parameters: the story, the model and the
  language.  The length in its instruction is the literal 60.
\<close>

definition generateStoryCaption :: "env \<Rightarrow> jsstring \<Rightarrow> jsstring \<Rightarrow> caption_language \<Rightarrow> jsstring gateway" where
  "generateStoryCaption e story model language =
     (let lang = (if language = Thai then js ''Thai'' else js ''English'') in
      text_question e model
        (js ''Summarize this story in ONE short sentence in '' @ lang @ js ''. Max 60 chars.'' @ newline
           @ js ''Story: '' @ story)
        (\<lambda>response. Inr (trim (text_or_empty response))))"

definition polishStory :: "env \<Rightarrow> jsstring \<Rightarrow> jsstring \<Rightarrow> jsstring gateway" where
  "polishStory e story model =
     text_question e model
       (js ''Rewrite this story elegantly. Do not change plot.'' @ newline @ js ''Story: '' @ story)
       (\<lambda>response. Inr (trim (text_or_empty response)))"

definition translateStory :: "env \<Rightarrow> jsstring \<Rightarrow> caption_language \<Rightarrow> jsstring \<Rightarrow> jsstring gateway" where
  "translateStory e story targetLanguage model =
     text_question e model
       (js ''Translate this into '' @ language_name targetLanguage @ js '':'' @ newline @ story)
       (\<lambda>response. Inr (trim (text_or_empty response)))"

definition generateDesignFromStory :: "env \<Rightarrow> jsstring \<Rightarrow> jsstring \<Rightarrow> jsstring \<Rightarrow> jsstring gateway" where
  "generateDesignFromStory e story styleName model =
     text_question e model
       (js ''Create an image prompt based on this story in '' @ styleName @ js '' style.'' @ newline
          @ js ''Story: '' @ story)
       (\<lambda>response. Inr (trim (text_or_empty response)))"

text \<open>
  \<^verbatim>\<open>expandImage\<close> builds its promise by hand.  The promise is rejected when the image
  fails to load or the canvas has no context, and settled from the backend call inside the
  \<^verbatim>\<open>try\<close> block.  An exception before that block (from \<^verbatim>\<open>toDataURL\<close> or from the
  decoder) leaves the promise pending for ever: the first component is then \<open>None\<close>.
\<close>

definition expandImage :: "env \<Rightarrow> jsstring \<Rightarrow> jsstring \<Rightarrow> (thrown + jsstring list) option \<times> request list" where
  "expandImage e imageSrc targetAspectRatio =
     (case loadImage e imageSrc of
        LoadError \<Rightarrow> (Some (Inl (JsError (js ''Failed to load image.''))), [])
      | Loaded originalWidth originalHeight \<Rightarrow>
          (let drawn = expandImage_layout originalWidth originalHeight targetAspectRatio in
           if \<not> canvasContext e then (Some (Inl (JsError (js ''Could not get canvas context''))), [])
           else
             (case toDataURL e imageSrc originalWidth originalHeight drawn of
                Inl _ \<Rightarrow> (None, [])
              | Inr compositeImageBase64 \<Rightarrow>
                  (case parseDataUrl compositeImageBase64 of
                     Inl _ \<Rightarrow> (None, [])
                   | Inr p \<Rightarrow>
                       (let prompt = js ''Expand the scene seamlessly to '' @ targetAspectRatio
                                       @ js ''. Match original style.'';
                            (outcome, sent) =
                              ask e \<lparr> cr_model = js ''gemini-2.5-flash-image'',
                                      cr_contents = Parts [InlineData (mimeType p) (payload p), TextPart prompt],
                                      imageConfig = None \<rparr>
                                (\<lambda>response.
                                   let images = response_images response in
                                   if images \<noteq> [] then Inr images
                                   else Inl (JsError (js ''Expansion failed.'')))
                        in (Some outcome, sent))))))"

section \<open>Orchestration core: the main component\<close>

record app_state =
  apiKeyInput :: jsstring
  statusMessage :: jsstring
  prompt :: jsstring
  aspectRatio :: jsstring
  style :: jsstring
  imageModel :: jsstring
  reasoningModel :: jsstring
  maxCaptionLength :: int
  images :: "jsstring list"
  referenceImages :: "jsstring list"
  loading :: bool
  error :: "jsstring option"
  loadingCount :: nat
  processingAction :: "jsstring option"
  promptActionLoading :: "jsstring option"

text \<open>
  How a handler ends: it returns, it throws out of its \<^verbatim>\<open>catch\<close> block, or it waits
  for ever on a promise that never settles.
\<close>

datatype completion = Returned | Threw js_error | Pending

record app_run =
  final :: app_state
  requests :: "request list"
  completion :: completion

text \<open>
  \<^verbatim>\<open>(err as Error).message\<close>: the message of an error object, the property of any other
  value (it may be undefined), a TypeError on \<^verbatim>\<open>null\<close> and \<^verbatim>\<open>undefined\<close>.
\<close>

definition error_message :: "thrown \<Rightarrow> js_error + jsstring option" where
  "error_message err =
     (case err of JsError m \<Rightarrow> Inr (Some m) | NonError m \<Rightarrow> Inr m | Nullish \<Rightarrow> Inl TypeError)"

text \<open>
  The shape shared by the handlers: after the awaited call settles, the \<^verbatim>\<open>try\<close> block
  folds the value (\<open>on_value\<close>), the \<^verbatim>\<open>catch\<close> block stores the message of the error, and
  the \<^verbatim>\<open>finally\<close> block (\<open>fin\<close>) runs on every path, also when the \<^verbatim>\<open>catch\<close> block throws.
\<close>

definition try_catch_finally ::
  "(thrown + 'a) \<Rightarrow> ('a \<Rightarrow> 's \<Rightarrow> 's) \<Rightarrow> (jsstring option \<Rightarrow> 's \<Rightarrow> 's) \<Rightarrow> ('s \<Rightarrow> 's) \<Rightarrow> 's \<Rightarrow> 's \<times> completion" where
  "try_catch_finally outcome on_value setError fin st =
     (case outcome of
        Inr v \<Rightarrow> (fin (on_value v st), Returned)
      | Inl err \<Rightarrow>
          (case error_message err of
             Inr m \<Rightarrow> (fin (setError m st), Returned)
           | Inl te \<Rightarrow> (fin st, Threw te)))"

text \<open>
  The same shape where the fold of the value can throw: the fold gives the state it has
  reached and the value it throws, if any; a thrown value enters the \<^verbatim>\<open>catch\<close> block as a
  rejection does.
\<close>

definition catch_finally ::
  "thrown \<Rightarrow> (jsstring option \<Rightarrow> 's \<Rightarrow> 's) \<Rightarrow> ('s \<Rightarrow> 's) \<Rightarrow> 's \<Rightarrow> 's \<times> completion" where
  "catch_finally err setError fin st =
     (case error_message err of
        Inr m \<Rightarrow> (fin (setError m st), Returned)
      | Inl te \<Rightarrow> (fin st, Threw te))"

definition try_fold_catch_finally ::
  "(thrown + 'a) \<Rightarrow> ('a \<Rightarrow> 's \<Rightarrow> 's \<times> thrown option) \<Rightarrow> (jsstring option \<Rightarrow> 's \<Rightarrow> 's) \<Rightarrow> ('s \<Rightarrow> 's) \<Rightarrow> 's
     \<Rightarrow> 's \<times> completion" where
  "try_fold_catch_finally outcome on_value setError fin st =
     (case outcome of
        Inr v \<Rightarrow>
          (case on_value v st of
             (st1, None) \<Rightarrow> (fin st1, Returned)
           | (st1, Some err) \<Rightarrow> catch_finally err setError fin st1)
      | Inl err \<Rightarrow> catch_finally err setError fin st)"

definition setError :: "jsstring option \<Rightarrow> app_state \<Rightarrow> app_state" where
  "setError m st = st\<lparr>error := m\<rparr>"

text \<open>
  A whole operation with nothing else in between: the state after the synchronous part,
  the gateway call, and the continuation on what the call gives.
\<close>

definition run_handler ::
  "app_state \<Rightarrow> (thrown + 'a) \<times> request list \<Rightarrow> ((thrown + 'a) \<Rightarrow> app_state \<Rightarrow> app_state \<times> completion) \<Rightarrow> app_run" where
  "run_handler started call settle =
     (case call of (outcome, sent) \<Rightarrow>
        (case settle outcome started of (st, c) \<Rightarrow>
           \<lparr> final = st, requests = sent, completion = c \<rparr>))"

definition early_return :: "jsstring \<Rightarrow> app_state \<Rightarrow> app_run" where
  "early_return message st =
     \<lparr> final = st\<lparr>error := Some message\<rparr>, requests = [], completion = Returned \<rparr>"

subsection \<open>Generation\<close>

definition truthy :: "jsstring option \<Rightarrow> bool" where
  "truthy v = (case v of None \<Rightarrow> False | Some s \<Rightarrow> s \<noteq> [])"

definition hasKey :: "env \<Rightarrow> bool" where
  "hasKey e =
     (truthy (storedKey e) \<or> (truthy (envApiKey e) \<and> envApiKey e \<noteq> Some (js ''PLACEHOLDER_API_KEY'')))"

text \<open>The credential broker of the host; \<open>False\<close> when one of its calls throws.\<close>

definition credential_bootstrap :: "env \<Rightarrow> bool" where
  "credential_bootstrap e =
     (case hasSelectedApiKey e of
        Inl _ \<Rightarrow> False
      | Inr nativeKey \<Rightarrow>
          if \<not> nativeKey then (case openSelectKey e of Inl _ \<Rightarrow> False | Inr _ \<Rightarrow> True)
          else True)"

definition isGeminiModel :: "jsstring \<Rightarrow> bool" where
  "isGeminiModel model = (model = js ''gemini-2.5-flash-image'' \<or> model = js ''gemini-3-pro-image-preview'')"

definition effectiveCount :: "app_state \<Rightarrow> nat \<Rightarrow> nat" where
  "effectiveCount st count =
     (if length (referenceImages st) > 0 \<or> isGeminiModel (imageModel st) then 1 else count)"

definition handleGenerate_begin :: "nat \<Rightarrow> app_state \<Rightarrow> app_state \<Rightarrow> app_state" where
  "handleGenerate_begin count captured st =
     st\<lparr>loading := True, error := None, images := [], loadingCount := effectiveCount captured count\<rparr>"

definition handleGenerate_call :: "env \<Rightarrow> nat \<Rightarrow> app_state \<Rightarrow> jsstring list gateway" where
  "handleGenerate_call e count captured =
     (if length (referenceImages captured) > 0
      then generateFromImageAndText e (prompt captured) (referenceImages captured)
      else generateFromText e (prompt captured) (effectiveCount captured count) (aspectRatio captured)
             (style captured) (imageModel captured))"

definition handleGenerate_catch :: "env \<Rightarrow> thrown \<Rightarrow> app_state \<Rightarrow> app_state" where
  "handleGenerate_catch e err st =
     (case err of
        JsError message \<Rightarrow>
          if str_includes message (js ''Requested entity was not found'')
             \<or> str_includes message (js ''API_KEY_INVALID'')
          then (if scrollIntoViewThrows e
                then st\<lparr>error := Some (js ''API Error: '' @ message)\<rparr>
                else st\<lparr>error := Some (js ''Invalid API Key. Please update the key in the field above.'')\<rparr>)
          else st\<lparr>error := Some message\<rparr>
      | _ \<Rightarrow> st\<lparr>error := Some (js ''An unknown error occurred.'')\<rparr>)"

definition handleGenerate_settle :: "env \<Rightarrow> (thrown + jsstring list) \<Rightarrow> app_state \<Rightarrow> app_state \<times> completion" where
  "handleGenerate_settle e outcome st =
     (let st1 = (case outcome of
                   Inr generatedImages \<Rightarrow> st\<lparr>images := generatedImages\<rparr>
                 | Inl err \<Rightarrow> handleGenerate_catch e err st)
      in (st1\<lparr>loading := False, loadingCount := 0\<rparr>, Returned))"

definition handleGenerate :: "env \<Rightarrow> nat \<Rightarrow> app_state \<Rightarrow> app_run" where
  "handleGenerate e count st =
     (if trim (prompt st) = [] then early_return (js ''Please enter a prompt.'') st
      else if \<not> hasKey e \<and> imageModel st = js ''gemini-3-pro-image-preview'' \<and> \<not> credential_bootstrap e
      then early_return (js ''API Key is required. Please set it in the field above.'') st
      else run_handler (handleGenerate_begin count st st) (handleGenerate_call e count st)
             (handleGenerate_settle e))"

subsection \<open>The reference list\<close>

text \<open>
  \<^verbatim>\<open>handleSetReference\<close> is re-created when \<^verbatim>\<open>referenceImages.length\<close> changes: its
  guard reads the length it was created with (\<open>capturedLength\<close>), and its update is applied
  to the list as it is when the update runs.
\<close>

definition handleSetReference :: "nat \<Rightarrow> jsstring \<Rightarrow> app_state \<Rightarrow> app_state" where
  "handleSetReference capturedLength imageSrc st =
     (if capturedLength < 4 then st\<lparr>referenceImages := referenceImages st @ [imageSrc]\<rparr>
      else st\<lparr>error := Some (js ''You can only have a maximum of 4 reference images.'')\<rparr>)"

definition handleRemoveReference :: "nat \<Rightarrow> app_state \<Rightarrow> app_state" where
  "handleRemoveReference indexToRemove st =
     st\<lparr>referenceImages :=
          map snd (filter (\<lambda>(index, _). index \<noteq> indexToRemove) (enumerate 0 (referenceImages st)))\<rparr>"

text \<open>
  \<^verbatim>\<open>handleUploadReference\<close> holds the \<^verbatim>\<open>handleSetReference\<close> of the render it was
  created in.  It starts reading the file and continues when the read settles.
\<close>

definition handleUploadReference_settle :: "nat \<Rightarrow> (thrown + jsstring) \<Rightarrow> app_state \<Rightarrow> app_state" where
  "handleUploadReference_settle capturedLength outcome st =
     (case outcome of
        Inr base64 \<Rightarrow> handleSetReference capturedLength base64 st
      | Inl _ \<Rightarrow> st\<lparr>error := Some (js ''Failed to read the image file.'')\<rparr>)"

definition handleUploadReference :: "env \<Rightarrow> upload_file \<Rightarrow> app_state \<Rightarrow> app_state" where
  "handleUploadReference e f st =
     (if \<not> startsWith (file_type f) (js ''image/'')
      then st\<lparr>error := Some (js ''Please upload a valid image file.'')\<rparr>
      else handleUploadReference_settle (length (referenceImages st)) (blobToBase64 e f) st)"

subsection \<open>Actions on a result image\<close>

definition handleDescribe_begin :: "nat \<Rightarrow> app_state \<Rightarrow> app_state" where
  "handleDescribe_begin index st =
     st\<lparr>processingAction := Some (js ''describe-'' @ decimal index), error := None\<rparr>"

definition handleDescribe_settle :: "(thrown + jsstring) \<Rightarrow> app_state \<Rightarrow> app_state \<times> completion" where
  "handleDescribe_settle outcome =
     try_catch_finally outcome (\<lambda>description st. st\<lparr>prompt := description\<rparr>) setError
       (\<lambda>st. st\<lparr>processingAction := None\<rparr>)"

definition handleDescribe :: "env \<Rightarrow> jsstring \<Rightarrow> nat \<Rightarrow> app_state \<Rightarrow> app_run" where
  "handleDescribe e imageSrc index st =
     run_handler (handleDescribe_begin index st) (describeImage e imageSrc (reasoningModel st))
       handleDescribe_settle"

text \<open>
  The prompt built from a caption, the same three lines in \<^verbatim>\<open>handleCaption\<close> and in
  \<^verbatim>\<open>handleCaptionRef1\<close>.  The character class of the test is the range from U+0E01
  (KO KAI) to U+0E2E (HO NOKHUK).
\<close>

definition caption_prompt :: "jsstring \<Rightarrow> jsstring" where
  "caption_prompt caption =
     (let isThai = list_ex (\<lambda>c. 0x0E01 \<le> c \<and> c \<le> 0x0E2E) caption;
          textType = (if isThai then js ''Thai text'' else js ''text'')
      in js ''Recreate the image in [ref-1], but add the following '' @ textType @ js '' as a caption: ''
           @ dquote @ caption @ dquote @ js ''. The '' @ textType
           @ js '' should be elegantly placed in a suitable position, using a beautiful font with a color that is easily readable against the background. Do not obscure important details like faces or key subjects. The ''
           @ textType
           @ js '' MUST be clear and readable, using the exact characters provided without translation.'')"

definition handleCaption_begin :: "nat \<Rightarrow> app_state \<Rightarrow> app_state" where
  "handleCaption_begin index st =
     st\<lparr>processingAction := Some (js ''caption-'' @ decimal index), error := None\<rparr>"

definition handleCaption_settle :: "jsstring \<Rightarrow> (thrown + jsstring) \<Rightarrow> app_state \<Rightarrow> app_state \<times> completion" where
  "handleCaption_settle imageSrc outcome =
     try_catch_finally outcome
       (\<lambda>caption st. st\<lparr>referenceImages := [imageSrc], prompt := caption_prompt caption\<rparr>) setError
       (\<lambda>st. st\<lparr>processingAction := None\<rparr>)"

text \<open>
  The call site passes \<^verbatim>\<open>maxCaptionLength\<close> as a third argument; \<^verbatim>\<open>suggestCaption\<close> has
  no third parameter, so the argument is evaluated and dropped.
\<close>

definition handleCaption :: "env \<Rightarrow> jsstring \<Rightarrow> nat \<Rightarrow> app_state \<Rightarrow> app_run" where
  "handleCaption e imageSrc index st =
     run_handler (handleCaption_begin index st) (suggestCaption e imageSrc (reasoningModel st))
       (handleCaption_settle imageSrc)"

definition remove_text_prompt :: jsstring where
  "remove_text_prompt = js ''Analyze the image provided in [ref-1] and remove all text, words, characters and logos. Reconstruct the areas where the text was removed to look natural and seamless with the rest of the image.''"

definition handleRemoveText_begin :: "jsstring \<Rightarrow> nat \<Rightarrow> app_state \<Rightarrow> app_state" where
  "handleRemoveText_begin imageSrc index st =
     st\<lparr>processingAction := Some (js ''remove-text-'' @ decimal index), error := None,
        prompt := remove_text_prompt, referenceImages := [imageSrc], loading := True, images := [],
        loadingCount := 1\<rparr>"

definition handleRemoveText_settle :: "(thrown + jsstring list) \<Rightarrow> app_state \<Rightarrow> app_state \<times> completion" where
  "handleRemoveText_settle outcome =
     try_catch_finally outcome (\<lambda>generatedImages st. st\<lparr>images := generatedImages\<rparr>) setError
       (\<lambda>st. st\<lparr>loading := False, loadingCount := 0, processingAction := None\<rparr>)"

definition handleRemoveText :: "env \<Rightarrow> jsstring \<Rightarrow> nat \<Rightarrow> app_state \<Rightarrow> app_run" where
  "handleRemoveText e imageSrc index st =
     run_handler (handleRemoveText_begin imageSrc index st)
       (generateFromImageAndText e remove_text_prompt [imageSrc]) handleRemoveText_settle"

text \<open>
  The expansion of an image.  When the promise of \<^verbatim>\<open>expandImage\<close> never settles the
  handler stays where its synchronous part left it.
\<close>

definition handleExpandImage_begin :: "nat \<Rightarrow> jsstring \<Rightarrow> app_state \<Rightarrow> app_state" where
  "handleExpandImage_begin index targetAspectRatio st =
     st\<lparr>processingAction := Some (js ''expand-'' @ decimal index), loading := True, error := None,
        images := [], loadingCount := 1, aspectRatio := targetAspectRatio\<rparr>"

definition handleExpandImage_settle :: "(thrown + jsstring list) \<Rightarrow> app_state \<Rightarrow> app_state \<times> completion" where
  "handleExpandImage_settle outcome =
     try_catch_finally outcome (\<lambda>expandedImages st. st\<lparr>images := expandedImages\<rparr>) setError
       (\<lambda>st. st\<lparr>loading := False, loadingCount := 0, processingAction := None,
                aspectRatio := js ''16:9''\<rparr>)"

definition run_expand ::
  "app_state \<Rightarrow> (thrown + jsstring list) option \<times> request list \<Rightarrow>
   ((thrown + jsstring list) \<Rightarrow> app_state \<Rightarrow> app_state \<times> completion) \<Rightarrow> app_run" where
  "run_expand started call settle =
     (case call of
        (None, sent) \<Rightarrow> \<lparr> final = started, requests = sent, completion = Pending \<rparr>
      | (Some outcome, sent) \<Rightarrow> run_handler started (outcome, sent) settle)"

definition handleExpandImage :: "env \<Rightarrow> jsstring \<Rightarrow> nat \<Rightarrow> jsstring \<Rightarrow> app_state \<Rightarrow> app_run" where
  "handleExpandImage e imageSrc index targetAspectRatio st =
     run_expand (handleExpandImage_begin index targetAspectRatio st)
       (expandImage e imageSrc targetAspectRatio) handleExpandImage_settle"

subsection \<open>Actions on the first reference image and on the prompt\<close>

definition handleDescribeRef1_begin :: "app_state \<Rightarrow> app_state" where
  "handleDescribeRef1_begin st = st\<lparr>promptActionLoading := Some (js ''describe-ref-1''), error := None\<rparr>"

definition handleDescribeRef1_settle :: "(thrown + jsstring) \<Rightarrow> app_state \<Rightarrow> app_state \<times> completion" where
  "handleDescribeRef1_settle outcome =
     try_catch_finally outcome (\<lambda>description st. st\<lparr>prompt := description\<rparr>) setError
       (\<lambda>st. st\<lparr>promptActionLoading := None\<rparr>)"

definition handleDescribeRef1 :: "env \<Rightarrow> app_state \<Rightarrow> app_run" where
  "handleDescribeRef1 e st =
     (case referenceImages st of
        [] \<Rightarrow> early_return (js ''No reference image available to describe.'') st
      | ref1 # _ \<Rightarrow>
          run_handler (handleDescribeRef1_begin st) (describeImage e ref1 (reasoningModel st))
            handleDescribeRef1_settle)"

definition handleCaptionRef1_begin :: "app_state \<Rightarrow> app_state" where
  "handleCaptionRef1_begin st = st\<lparr>promptActionLoading := Some (js ''caption-ref-1''), error := None\<rparr>"

definition handleCaptionRef1_settle :: "jsstring \<Rightarrow> (thrown + jsstring) \<Rightarrow> app_state \<Rightarrow> app_state \<times> completion" where
  "handleCaptionRef1_settle ref1 outcome =
     try_catch_finally outcome
       (\<lambda>caption st. st\<lparr>referenceImages := [ref1], prompt := caption_prompt caption\<rparr>) setError
       (\<lambda>st. st\<lparr>promptActionLoading := None\<rparr>)"

definition handleCaptionRef1 :: "env \<Rightarrow> app_state \<Rightarrow> app_run" where
  "handleCaptionRef1 e st =
     (case referenceImages st of
        [] \<Rightarrow> early_return (js ''No reference image available to caption.'') st
      | ref1 # _ \<Rightarrow>
          run_handler (handleCaptionRef1_begin st) (suggestCaption e ref1 (reasoningModel st))
            (handleCaptionRef1_settle ref1))"

definition handleRemoveTextRef1_begin :: "jsstring \<Rightarrow> app_state \<Rightarrow> app_state" where
  "handleRemoveTextRef1_begin ref1 st =
     st\<lparr>promptActionLoading := Some (js ''remove-text-ref-1''), error := None,
        prompt := remove_text_prompt, referenceImages := [ref1], loading := True, images := [],
        loadingCount := 1\<rparr>"

definition handleRemoveTextRef1_settle :: "(thrown + jsstring list) \<Rightarrow> app_state \<Rightarrow> app_state \<times> completion" where
  "handleRemoveTextRef1_settle outcome =
     try_catch_finally outcome (\<lambda>generatedImages st. st\<lparr>images := generatedImages\<rparr>) setError
       (\<lambda>st. st\<lparr>loading := False, loadingCount := 0, promptActionLoading := None\<rparr>)"

definition handleRemoveTextRef1 :: "env \<Rightarrow> app_state \<Rightarrow> app_run" where
  "handleRemoveTextRef1 e st =
     (case referenceImages st of
        [] \<Rightarrow> early_return (js ''No reference image available to process.'') st
      | ref1 # _ \<Rightarrow>
          run_handler (handleRemoveTextRef1_begin ref1 st)
            (generateFromImageAndText e remove_text_prompt [ref1]) handleRemoveTextRef1_settle)"

definition handleExpandRef1_begin :: "jsstring \<Rightarrow> app_state \<Rightarrow> app_state" where
  "handleExpandRef1_begin targetAspectRatio st =
     st\<lparr>promptActionLoading := Some (js ''expand-ref-1''), loading := True, error := None,
        images := [], loadingCount := 1, aspectRatio := targetAspectRatio\<rparr>"

definition handleExpandRef1_settle :: "(thrown + jsstring list) \<Rightarrow> app_state \<Rightarrow> app_state \<times> completion" where
  "handleExpandRef1_settle outcome =
     try_catch_finally outcome (\<lambda>expandedImages st. st\<lparr>images := expandedImages\<rparr>) setError
       (\<lambda>st. st\<lparr>loading := False, loadingCount := 0, promptActionLoading := None,
                aspectRatio := js ''16:9''\<rparr>)"

definition handleExpandRef1 :: "env \<Rightarrow> jsstring \<Rightarrow> app_state \<Rightarrow> app_run" where
  "handleExpandRef1 e targetAspectRatio st =
     (case referenceImages st of
        [] \<Rightarrow> early_return (js ''No reference image available to expand.'') st
      | ref1 # _ \<Rightarrow>
          run_expand (handleExpandRef1_begin targetAspectRatio st)
            (expandImage e ref1 targetAspectRatio) handleExpandRef1_settle)"

definition handleEnhancePrompt_begin :: "app_state \<Rightarrow> app_state" where
  "handleEnhancePrompt_begin st = st\<lparr>promptActionLoading := Some (js ''enhance''), error := None\<rparr>"

definition handleEnhancePrompt_settle :: "(thrown + jsstring) \<Rightarrow> app_state \<Rightarrow> app_state \<times> completion" where
  "handleEnhancePrompt_settle outcome =
     try_catch_finally outcome (\<lambda>enhanced st. st\<lparr>prompt := enhanced\<rparr>) setError
       (\<lambda>st. st\<lparr>promptActionLoading := None\<rparr>)"

definition handleEnhancePrompt :: "env \<Rightarrow> app_state \<Rightarrow> app_run" where
  "handleEnhancePrompt e st =
     (if trim (prompt st) = [] then early_return (js ''Prompt is empty, nothing to enhance.'') st
      else run_handler (handleEnhancePrompt_begin st) (enhancePrompt e (prompt st) (reasoningModel st))
             handleEnhancePrompt_settle)"

definition handleConcept_begin :: "app_state \<Rightarrow> app_state" where
  "handleConcept_begin st = st\<lparr>promptActionLoading := Some (js ''concept''), error := None\<rparr>"

definition handleConcept_settle :: "(thrown + jsstring) \<Rightarrow> app_state \<Rightarrow> app_state \<times> completion" where
  "handleConcept_settle outcome =
     try_catch_finally outcome (\<lambda>concept st. st\<lparr>prompt := concept\<rparr>) setError
       (\<lambda>st. st\<lparr>promptActionLoading := None\<rparr>)"

definition handleConcept :: "env \<Rightarrow> app_state \<Rightarrow> app_run" where
  "handleConcept e st =
     (if trim (prompt st) = [] then early_return (js ''Prompt is empty, cannot generate concept.'') st
      else run_handler (handleConcept_begin st) (generateConcept e (prompt st) (reasoningModel st))
             handleConcept_settle)"

text \<open>
  \<^verbatim>\<open>document.getElementById('controls')\<close> and, when the element exists, its
  \<^verbatim>\<open>scrollIntoView\<close>: the value the call throws, if it throws.
\<close>

definition scroll_to_controls :: "env \<Rightarrow> thrown option" where
  "scroll_to_controls e =
     (if controlsElement e \<and> scrollIntoViewThrows e then Some (scrollIntoViewError e) else None)"

text \<open>\<^verbatim>\<open>handlePostStoryToPrompt\<close> sets the prompt, then scrolls; the scroll may throw.\<close>

definition handlePostStoryToPrompt :: "env \<Rightarrow> jsstring \<Rightarrow> app_state \<Rightarrow> app_state \<times> thrown option" where
  "handlePostStoryToPrompt e storyText st = (st\<lparr>prompt := storyText\<rparr>, scroll_to_controls e)"

section \<open>Orchestration core: the story component\<close>

text \<open>
  The story component keeps its own state and in-flight slot.  It receives the style, the
  reasoning model and the caption length from the main component, and hands a text to the
  main component by calling \<^verbatim>\<open>onPostToPrompt\<close>; the second component of its state here
  lists those calls.  The callback is \<^verbatim>\<open>handlePostStoryToPrompt\<close> of the main component,
  so a call throws what that handler throws, inside the \<^verbatim>\<open>try\<close> block of the caller.
\<close>

record writer_state =
  story :: jsstring
  fileName :: jsstring
  language :: story_language
  story_style :: jsstring
  loadingAction :: "jsstring option"
  writer_error :: "jsstring option"
  fileContent :: "jsstring option"
  showFileOptions :: bool

record writer_props =
  selectedStyle :: jsstring
  selectedReasoningModel :: jsstring
  captionLength :: int

type_synonym writer = "writer_state \<times> jsstring list"

record writer_run =
  writer_final :: writer_state
  posted :: "jsstring list"
  writer_requests :: "request list"
  writer_completion :: completion

definition writer_setError :: "jsstring option \<Rightarrow> writer \<Rightarrow> writer" where
  "writer_setError m w = (case w of (st, posts) \<Rightarrow> (st\<lparr>writer_error := m\<rparr>, posts))"

definition writer_finally :: "writer \<Rightarrow> writer" where
  "writer_finally w = (case w of (st, posts) \<Rightarrow> (st\<lparr>loadingAction := None\<rparr>, posts))"

definition onPostToPrompt :: "env \<Rightarrow> jsstring \<Rightarrow> writer \<Rightarrow> writer \<times> thrown option" where
  "onPostToPrompt e fullPrompt w =
     (case w of (st, posts) \<Rightarrow> ((st, posts @ [fullPrompt]), scroll_to_controls e))"

definition writer_begin :: "jsstring \<Rightarrow> writer_state \<Rightarrow> writer" where
  "writer_begin tag st = (st\<lparr>loadingAction := Some tag, writer_error := None\<rparr>, [])"

definition writer_early_return :: "jsstring \<Rightarrow> writer_state \<Rightarrow> writer_run" where
  "writer_early_return message st =
     \<lparr> writer_final = st\<lparr>writer_error := Some message\<rparr>, posted = [], writer_requests = [],
       writer_completion = Returned \<rparr>"

definition run_writer ::
  "writer \<Rightarrow> (thrown + 'a) \<times> request list \<Rightarrow> ((thrown + 'a) \<Rightarrow> writer \<Rightarrow> writer \<times> completion) \<Rightarrow> writer_run" where
  "run_writer started call settle =
     (case call of (outcome, sent) \<Rightarrow>
        (case settle outcome started of ((st, posts), c) \<Rightarrow>
           \<lparr> writer_final = st, posted = posts, writer_requests = sent, writer_completion = c \<rparr>))"

definition handleIdea_settle :: "jsstring \<Rightarrow> (thrown + jsstring) \<Rightarrow> writer \<Rightarrow> writer \<times> completion" where
  "handleIdea_settle capturedStyle outcome =
     try_catch_finally outcome
       (\<lambda>nextSentence w. case w of (st, posts) \<Rightarrow>
          (st\<lparr>story :=
               (if trim (story st) \<noteq> []
                then trim (story st) @ (if capturedStyle = js ''thai_poem'' then newline else js '' '')
                       @ nextSentence
                else nextSentence)\<rparr>, posts))
       writer_setError writer_finally"

definition handleIdea :: "env \<Rightarrow> writer_props \<Rightarrow> writer_state \<Rightarrow> writer_run" where
  "handleIdea e props st =
     run_writer (writer_begin (js ''idea'') st)
       (generateNextSentence e (story st) (language st) (story_style st) (selectedReasoningModel props))
       (handleIdea_settle (story_style st))"

definition handleCustomCaption_settle :: "env \<Rightarrow> (thrown + jsstring) \<Rightarrow> writer \<Rightarrow> writer \<times> completion" where
  "handleCustomCaption_settle e outcome =
     try_fold_catch_finally outcome
       (\<lambda>caption. onPostToPrompt e
          (js ''Recreate the image in [ref-1], but add the following text as a caption: '' @ dquote @ caption
             @ dquote
             @ js ''. The text should be elegantly placed in a suitable position, using a beautiful font with a color that is easily readable against the background. Do not obscure important details like faces or key subjects. The text should be clear and readable on a mobile screen. Use the exact text provided without translation.''))
       writer_setError writer_finally"

text \<open>
  The three caption handlers pass \<^verbatim>\<open>maxCaptionLength\<close> as a fourth argument;
  \<^verbatim>\<open>generateStoryCaption\<close> has no fourth parameter, so the argument is evaluated and dropped.
\<close>

definition handleCustomCaption :: "env \<Rightarrow> writer_props \<Rightarrow> writer_state \<Rightarrow> writer_run" where
  "handleCustomCaption e props st =
     (if trim (story st) = [] then writer_early_return (js ''Story is empty. Cannot create a caption.'') st
      else run_writer (writer_begin (js ''caption'') st)
             (generateStoryCaption e (story st) (selectedReasoningModel props) English)
             (handleCustomCaption_settle e))"

definition thai_caption_rules :: jsstring where
  "thai_caption_rules = js ''. The Thai text should be elegantly placed in a suitable position, using a beautiful font with a color that is easily readable against the background. Do not obscure important details like faces or key subjects. The Thai text MUST be rendered exactly as written in Thai characters, without any translation to English.''"

definition handleThaiCaption_settle :: "env \<Rightarrow> (thrown + jsstring) \<Rightarrow> writer \<Rightarrow> writer \<times> completion" where
  "handleThaiCaption_settle e outcome =
     try_fold_catch_finally outcome
       (\<lambda>caption. onPostToPrompt e
          (js ''Recreate the image in [ref-1], but add the following Thai text as a caption: '' @ dquote
             @ caption @ dquote @ thai_caption_rules))
       writer_setError writer_finally"

definition handleThaiCaption :: "env \<Rightarrow> writer_props \<Rightarrow> writer_state \<Rightarrow> writer_run" where
  "handleThaiCaption e props st =
     (if trim (story st) = [] then writer_early_return (js ''Story is empty. Cannot create a caption.'') st
      else run_writer (writer_begin (js ''caption-thai'') st)
             (generateStoryCaption e (story st) (selectedReasoningModel props) Thai)
             (handleThaiCaption_settle e))"

text \<open>
  \<^verbatim>\<open>Promise.all\<close> of two calls: both requests are sent; the result is both values, or the
  rejection that comes first.
\<close>

definition promise_all :: "env \<Rightarrow> 'a gateway \<Rightarrow> 'b gateway \<Rightarrow> ('a \<times> 'b) gateway" where
  "promise_all e first second =
     (case first of (outcome1, sent1) \<Rightarrow>
      case second of (outcome2, sent2) \<Rightarrow>
        ((case (outcome1, outcome2) of
            (Inr v1, Inr v2) \<Rightarrow> Inr (v1, v2)
          | (Inl err1, Inr _) \<Rightarrow> Inl err1
          | (Inr _, Inl err2) \<Rightarrow> Inl err2
          | (Inl err1, Inl err2) \<Rightarrow> Inl (if designRejectsFirst e then err2 else err1)),
         sent1 @ sent2))"

definition style_name :: "env \<Rightarrow> jsstring \<Rightarrow> jsstring" where
  "style_name e selected =
     (case find (\<lambda>(key, name). key = selected) (IMAGE_STYLES e) of
        None \<Rightarrow> js ''Photorealistic''
      | Some (key, name) \<Rightarrow> if name = [] then js ''Photorealistic'' else name)"

definition handleNewThaiCaption_settle ::
  "env \<Rightarrow> (thrown + jsstring \<times> jsstring) \<Rightarrow> writer \<Rightarrow> writer \<times> completion" where
  "handleNewThaiCaption_settle e outcome =
     try_fold_catch_finally outcome
       (\<lambda>(caption, designPrompt). onPostToPrompt e
          (designPrompt @ js '' Thai text in the image: '' @ dquote @ caption @ dquote @ thai_caption_rules))
       writer_setError writer_finally"

definition handleNewThaiCaption :: "env \<Rightarrow> writer_props \<Rightarrow> writer_state \<Rightarrow> writer_run" where
  "handleNewThaiCaption e props st =
     (if trim (story st) = [] then writer_early_return (js ''Story is empty. Cannot create a caption.'') st
      else run_writer (writer_begin (js ''new-caption-thai'') st)
             (promise_all e
                (generateStoryCaption e (story st) (selectedReasoningModel props) Thai)
                (generateDesignFromStory e (story st) (style_name e (selectedStyle props))
                   (selectedReasoningModel props)))
             (handleNewThaiCaption_settle e))"

definition handlePolish_settle :: "env \<Rightarrow> (thrown + jsstring) \<Rightarrow> writer \<Rightarrow> writer \<times> completion" where
  "handlePolish_settle e outcome =
     try_fold_catch_finally outcome (\<lambda>polishedStory. onPostToPrompt e polishedStory) writer_setError
       writer_finally"

definition handlePolish :: "env \<Rightarrow> writer_props \<Rightarrow> writer_state \<Rightarrow> writer_run" where
  "handlePolish e props st =
     (if trim (story st) = [] then writer_early_return (js ''Story is empty. Nothing to polish.'') st
      else run_writer (writer_begin (js ''polish'') st)
             (polishStory e (story st) (selectedReasoningModel props)) (handlePolish_settle e))"

definition handleTranslate_settle :: "env \<Rightarrow> (thrown + jsstring) \<Rightarrow> writer \<Rightarrow> writer \<times> completion" where
  "handleTranslate_settle e outcome =
     try_fold_catch_finally outcome (\<lambda>translatedStory. onPostToPrompt e translatedStory) writer_setError
       writer_finally"

definition handleTranslate :: "env \<Rightarrow> writer_props \<Rightarrow> caption_language \<Rightarrow> writer_state \<Rightarrow> writer_run" where
  "handleTranslate e props targetLanguage st =
     (if trim (story st) = []
      then writer_early_return
             (js ''Story is empty. Nothing to translate to '' @ language_name targetLanguage @ js ''.'') st
      else run_writer
             (writer_begin (case targetLanguage of Thai \<Rightarrow> js ''translate-thai''
                                                 | English \<Rightarrow> js ''translate-english'') st)
             (translateStory e (story st) targetLanguage (selectedReasoningModel props))
             (handleTranslate_settle e))"

section \<open>Initial states and a sample environment\<close>

text \<open>The initial values of the \<^verbatim>\<open>useState\<close> calls of the two components.\<close>

definition initial_state :: app_state where
  "initial_state =
     \<lparr> apiKeyInput = [], statusMessage = [], prompt = [], aspectRatio = js ''16:9'',
       style = js ''photorealistic'', imageModel = js ''gemini-2.5-flash-image'',
       reasoningModel = js ''gemini-3-flash-preview'', maxCaptionLength = 60, images = [],
       referenceImages = [], loading = False, error = None, loadingCount = 0,
       processingAction = None, promptActionLoading = None \<rparr>"

definition initial_writer :: writer_state where
  "initial_writer =
     \<lparr> story = [], fileName = js ''story.txt'', language = thai, story_style = js ''unspecified'',
       loadingAction = None, writer_error = None, fileContent = None, showFileOptions = False \<rparr>"

text \<open>
  An environment for concrete runs: a stored key, a browser that loads every image as
  1024 by 1024, and a backend that answers every request (\<open>sample_env\<close>), answers with
  a given text and no image (\<open>answering_env\<close>), or rejects every request with a given
  message (\<open>rejecting_env\<close>); and one whose \<^verbatim>\<open>scrollIntoView\<close> throws a given value
  (\<open>scroll_throwing_env\<close>).
\<close>

definition sample_env :: env where
  "sample_env =
     \<lparr> generateImages = (\<lambda>q. Inr (replicate (numberOfImages q) (js ''AAAA''))),
       generateContent =
         (\<lambda>q. Inr \<lparr> candidate_parts = Some [InlineImage (js ''image/png'') (js ''BBBB'')],
                     resp_text = Some (js ''A fox'') \<rparr>),
       STYLE_PROMPT_PREFIXES = (\<lambda>key. js ''A photo of''),
       IMAGE_STYLES = [(js ''photorealistic'', js ''Photorealistic'')],
       storedKey = Some (js ''key''), envApiKey = None, hasSelectedApiKey = Inr True,
       openSelectKey = Inr (), scrollIntoViewThrows = False,
       scrollIntoViewError = JsError (js ''scrollIntoView failed''), controlsElement = True,
       loadImage = (\<lambda>src. Loaded 1024 1024), canvasContext = True,
       toDataURL = (\<lambda>src w h drawn. Inr (js ''data:image/png;base64,CCCC'')),
       blobToBase64 = (\<lambda>f. Inr (js ''data:image/png;base64,DDDD'')),
       typeErrorMessage = js ''undefined is not an object'', designRejectsFirst = False \<rparr>"

definition answering_env :: "jsstring \<Rightarrow> env" where
  "answering_env answer =
     sample_env\<lparr> generateContent := (\<lambda>q. Inr \<lparr> candidate_parts = None, resp_text = Some answer \<rparr>) \<rparr>"

definition rejecting_env :: "jsstring \<Rightarrow> env" where
  "rejecting_env message =
     sample_env\<lparr> generateImages := (\<lambda>q. Inl (JsError message)),
                 generateContent := (\<lambda>q. Inl (JsError message)) \<rparr>"

definition scroll_throwing_env :: "thrown \<Rightarrow> env" where
  "scroll_throwing_env err = sample_env\<lparr> scrollIntoViewThrows := True, scrollIntoViewError := err \<rparr>"

section \<open>Notions of the specification\<close>

text \<open>
  An operation that fails fast: it sends nothing to the backend and returns with the
  session state it started in, but for the error message.  Since the in-flight slots are
  fields of the state, none of them has changed.
\<close>

definition fails_fast :: "jsstring \<Rightarrow> app_state \<Rightarrow> app_run \<Rightarrow> bool" where
  "fails_fast message st r =
     (requests r = [] \<and> final r = st\<lparr>error := Some message\<rparr> \<and> completion r = Returned)"

definition writer_fails_fast :: "jsstring \<Rightarrow> writer_state \<Rightarrow> writer_run \<Rightarrow> bool" where
  "writer_fails_fast message st r =
     (writer_requests r = [] \<and> posted r = [] \<and> writer_final r = st\<lparr>writer_error := Some message\<rparr>
      \<and> writer_completion r = Returned)"

text \<open>The message that sends the user to the credential field.\<close>

definition credential_message :: jsstring where
  "credential_message = js ''Invalid API Key. Please update the key in the field above.''"

text \<open>
  The Thai block of Unicode, U+0E00 to U+0E7F: consonants, vowels, tone marks, digits and
  other signs.
\<close>

definition thai_block :: "jschar \<Rightarrow> bool" where
  "thai_block c = (0x0E00 \<le> c \<and> c \<le> 0x0E7F)"

text \<open>The two wordings of the caption prompt, written out.\<close>

definition thai_wording :: "jsstring \<Rightarrow> jsstring" where
  "thai_wording caption =
     js ''Recreate the image in [ref-1], but add the following Thai text as a caption: '' @ dquote @ caption
       @ dquote
       @ js ''. The Thai text should be elegantly placed in a suitable position, using a beautiful font with a color that is easily readable against the background. Do not obscure important details like faces or key subjects. The Thai text MUST be clear and readable, using the exact characters provided without translation.''"

definition generic_wording :: "jsstring \<Rightarrow> jsstring" where
  "generic_wording caption =
     js ''Recreate the image in [ref-1], but add the following text as a caption: '' @ dquote @ caption
       @ dquote
       @ js ''. The text should be elegantly placed in a suitable position, using a beautiful font with a color that is easily readable against the background. Do not obscure important details like faces or key subjects. The text MUST be clear and readable, using the exact characters provided without translation.''"

chapter \<open>Properties\<close>

section \<open>Strings and the data URL codec\<close>

lemma js_simps: "js [] = []" "js (c # s) = of_char c # js s"
  by (simp_all add: js_def)

lemma split_head: "\<exists>rest. split sep s = takeWhile (\<lambda>c. c \<noteq> sep) s # rest"
  by (induction s) (auto split: list.splits)


lemma lazy_group_Some_iff:
  "lazy_group s = Some t \<longleftrightarrow>
     (\<exists>rest. s = t @ semicolon # rest \<and> semicolon \<notin> set t \<and> (\<forall>c\<in>set t. \<not> is_line_terminator c))"
proof (induction s arbitrary: t)
  case Nil
  then show ?case by simp
next
  case (Cons c cs)
  show ?case
  proof (cases "c = semicolon")
    case True
    then show ?thesis by (auto simp: Cons_eq_append_conv)
  next
    case False
    note not_semi = this
    show ?thesis
    proof (cases "is_line_terminator c")
      case True
      then show ?thesis using not_semi by (auto simp: Cons_eq_append_conv)
    next
      case False
      then show ?thesis using not_semi Cons.IH by (auto simp: Cons_eq_append_conv)
    qed
  qed
qed

lemma lazy_group_None_iff:
  "lazy_group s = None \<longleftrightarrow>
     \<not> (\<exists>t rest. s = t @ semicolon # rest \<and> (\<forall>c\<in>set t. \<not> is_line_terminator c))"
proof
  assume "lazy_group s = None"
  show "\<not> (\<exists>t rest. s = t @ semicolon # rest \<and> (\<forall>c\<in>set t. \<not> is_line_terminator c))"
  proof
    assume "\<exists>t rest. s = t @ semicolon # rest \<and> (\<forall>c\<in>set t. \<not> is_line_terminator c)"
    then obtain t rest where s: "s = t @ semicolon # rest" and lt: "\<forall>c\<in>set t. \<not> is_line_terminator c"
      by blast
    define t1 where "t1 = takeWhile (\<lambda>c. c \<noteq> semicolon) t"
    have "\<exists>rest'. s = t1 @ semicolon # rest'"
    proof (cases "semicolon \<in> set t")
      case True
      then obtain r where "t = t1 @ semicolon # r"
        unfolding t1_def
        by (metis (mono_tags, lifting) takeWhile_dropWhile_id dropWhile_eq_Nil_conv hd_dropWhile list.collapse)
      then show ?thesis using s by simp
    next
      case False
      then have "t1 = t" unfolding t1_def by auto
      then show ?thesis using s by blast
    qed
    moreover have "semicolon \<notin> set t1"
      unfolding t1_def by (metis (mono_tags, lifting) set_takeWhileD)
    moreover have "\<forall>c\<in>set t1. \<not> is_line_terminator c"
      using lt unfolding t1_def by (meson set_takeWhileD)
    ultimately have "lazy_group s = Some t1"
      unfolding lazy_group_Some_iff by blast
    with \<open>lazy_group s = None\<close> show False by simp
  qed
next
  assume "\<not> (\<exists>t rest. s = t @ semicolon # rest \<and> (\<forall>c\<in>set t. \<not> is_line_terminator c))"
  then show "lazy_group s = None"
    by (cases "lazy_group s") (auto simp: lazy_group_Some_iff)
qed

lemma match_mime_None_iff:
  "match_mime h = None \<longleftrightarrow>
     \<not> (\<exists>pre t rest. h = pre @ colon # t @ semicolon # rest \<and> (\<forall>c\<in>set t. \<not> is_line_terminator c))"
proof (induction h)
  case Nil
  then show ?case by simp
next
  case (Cons c cs)
  have split_ex:
    "(\<exists>pre t rest. c # cs = pre @ colon # t @ semicolon # rest \<and> (\<forall>c\<in>set t. \<not> is_line_terminator c)) \<longleftrightarrow>
     (c = colon \<and> (\<exists>t rest. cs = t @ semicolon # rest \<and> (\<forall>c\<in>set t. \<not> is_line_terminator c))) \<or>
     (\<exists>pre t rest. cs = pre @ colon # t @ semicolon # rest \<and> (\<forall>c\<in>set t. \<not> is_line_terminator c))"
    (is "?L \<longleftrightarrow> ?A \<or> ?B")
  proof
    assume ?L
    then obtain pre t rest where eq: "c # cs = pre @ colon # t @ semicolon # rest"
      and lt: "\<forall>c\<in>set t. \<not> is_line_terminator c" by blast
    show "?A \<or> ?B"
    proof (cases pre)
      case Nil
      then show ?thesis using eq lt by auto
    next
      case (Cons p ps)
      then have "cs = ps @ colon # t @ semicolon # rest" using eq by simp
      then show ?thesis using lt by blast
    qed
  next
    assume "?A \<or> ?B"
    then show ?L
    proof
      assume ?A
      then obtain t rest where "c # cs = [] @ colon # t @ semicolon # rest" "\<forall>c\<in>set t. \<not> is_line_terminator c"
        by auto
      then show ?L by blast
    next
      assume ?B
      then obtain pre t rest where "c # cs = (c # pre) @ colon # t @ semicolon # rest" "\<forall>c\<in>set t. \<not> is_line_terminator c"
        by auto
      then show ?L by blast
    qed
  qed
  show ?case
    unfolding split_ex using Cons.IH lazy_group_None_iff[of cs]
    by (auto split: option.splits)
qed

lemma match_mime_Some_token:
  "match_mime h = Some t \<Longrightarrow>
     \<exists>pre rest. h = pre @ colon # t @ semicolon # rest \<and> semicolon \<notin> set t \<and> (\<forall>c\<in>set t. \<not> is_line_terminator c)"
proof (induction h)
  case Nil
  then show ?case by simp
next
  case (Cons c cs)
  show ?case
  proof (cases "c = colon \<and> lazy_group cs \<noteq> None")
    case True
    then have "lazy_group cs = Some t" using Cons.prems by (auto split: option.splits)
    then obtain rest where "cs = t @ semicolon # rest" "semicolon \<notin> set t" "\<forall>c\<in>set t. \<not> is_line_terminator c"
      unfolding lazy_group_Some_iff by blast
    then have "c # cs = [] @ colon # t @ semicolon # rest \<and> semicolon \<notin> set t \<and> (\<forall>c\<in>set t. \<not> is_line_terminator c)"
      using True by simp
    then show ?thesis by blast
  next
    case False
    then have "match_mime cs = Some t" using Cons.prems by (auto split: option.splits if_splits)
    from Cons.IH[OF this] obtain pre rest where
      "cs = pre @ colon # t @ semicolon # rest" "semicolon \<notin> set t" "\<forall>c\<in>set t. \<not> is_line_terminator c"
      by blast
    then have "c # cs = (c # pre) @ colon # t @ semicolon # rest \<and> semicolon \<notin> set t \<and> (\<forall>c\<in>set t. \<not> is_line_terminator c)"
      by simp
    then show ?thesis by blast
  qed
qed

lemma match_mime_first_colon:
  "colon \<notin> set pre \<Longrightarrow> semicolon \<notin> set t \<Longrightarrow> \<forall>c\<in>set t. \<not> is_line_terminator c \<Longrightarrow>
     match_mime (pre @ colon # t @ semicolon # rest) = Some t"
proof (induction pre)
  case Nil
  have "lazy_group (t @ semicolon # rest) = Some t"
    unfolding lazy_group_Some_iff using Nil by blast
  then show ?case by simp
next
  case (Cons p ps)
  then show ?case by auto
qed

lemma parseDataUrl_header:
  "\<exists>rest. parseDataUrl s =
     Inr \<lparr> mimeType = (case match_mime (takeWhile (\<lambda>c. c \<noteq> comma) s) of Some m \<Rightarrow> m | None \<Rightarrow> js ''image/png''),
           payload = (case rest of [] \<Rightarrow> None | d # _ \<Rightarrow> Some d) \<rparr>"
proof -
  obtain rest where "split comma s = takeWhile (\<lambda>c. c \<noteq> comma) s # rest"
    using split_head by blast
  then show ?thesis by (auto simp: parseDataUrl_def)
qed

text \<open>
  Claim C9, as the code has it.  Decoding never fails.  The header is the text before the
  first comma, and the whole input when there is no comma.  When the header holds a token
  (a colon, later a semicolon, and no line terminator between them) the media type is such
  a token, the one after the first colon when nothing precedes it but colon-free text; when
  the header holds no token the media type is \<^verbatim>\<open>image/png\<close>.  An input with no comma is
  therefore not sent to the default when its text holds a token.
\<close>

theorem parseDataUrl_lenient:
  "\<exists>p. parseDataUrl s = Inr p \<and>
     (takeWhile (\<lambda>c. c \<noteq> comma) s = pre @ colon # t @ semicolon # rest \<and> colon \<notin> set pre \<and>
        semicolon \<notin> set t \<and> (\<forall>c\<in>set t. \<not> is_line_terminator c) \<longrightarrow> mimeType p = t) \<and>
     ((\<exists>pre' t' rest'. takeWhile (\<lambda>c. c \<noteq> comma) s = pre' @ colon # t' @ semicolon # rest' \<and>
          (\<forall>c\<in>set t'. \<not> is_line_terminator c)) \<longrightarrow>
        (\<exists>pre' rest'. takeWhile (\<lambda>c. c \<noteq> comma) s = pre' @ colon # mimeType p @ semicolon # rest' \<and>
           semicolon \<notin> set (mimeType p) \<and> (\<forall>c\<in>set (mimeType p). \<not> is_line_terminator c))) \<and>
     (\<not> (\<exists>pre' t' rest'. takeWhile (\<lambda>c. c \<noteq> comma) s = pre' @ colon # t' @ semicolon # rest' \<and>
          (\<forall>c\<in>set t'. \<not> is_line_terminator c)) \<longrightarrow> mimeType p = js ''image/png'')"
proof -
  let ?h = "takeWhile (\<lambda>c. c \<noteq> comma) s"
  obtain rest0 where p: "parseDataUrl s =
     Inr \<lparr> mimeType = (case match_mime ?h of Some m \<Rightarrow> m | None \<Rightarrow> js ''image/png''),
           payload = (case rest0 of [] \<Rightarrow> None | d # _ \<Rightarrow> Some d) \<rparr>"
    using parseDataUrl_header by blast
  let ?p = "\<lparr> mimeType = (case match_mime ?h of Some m \<Rightarrow> m | None \<Rightarrow> js ''image/png''),
           payload = (case rest0 of [] \<Rightarrow> None | d # _ \<Rightarrow> Some d) \<rparr>"
  have first: "?h = pre @ colon # t @ semicolon # rest \<and> colon \<notin> set pre \<and>
        semicolon \<notin> set t \<and> (\<forall>c\<in>set t. \<not> is_line_terminator c) \<longrightarrow> mimeType ?p = t"
    using match_mime_first_colon[of pre t rest] by auto
  have some: "(\<exists>pre' t' rest'. ?h = pre' @ colon # t' @ semicolon # rest' \<and>
          (\<forall>c\<in>set t'. \<not> is_line_terminator c)) \<longrightarrow>
        (\<exists>pre' rest'. ?h = pre' @ colon # mimeType ?p @ semicolon # rest' \<and>
           semicolon \<notin> set (mimeType ?p) \<and> (\<forall>c\<in>set (mimeType ?p). \<not> is_line_terminator c))"
  proof
    assume "\<exists>pre' t' rest'. ?h = pre' @ colon # t' @ semicolon # rest' \<and>
          (\<forall>c\<in>set t'. \<not> is_line_terminator c)"
    then have "match_mime ?h \<noteq> None" unfolding match_mime_None_iff by blast
    then obtain m where m: "match_mime ?h = Some m" by blast
    from match_mime_Some_token[OF m] show
      "\<exists>pre' rest'. ?h = pre' @ colon # mimeType ?p @ semicolon # rest' \<and>
           semicolon \<notin> set (mimeType ?p) \<and> (\<forall>c\<in>set (mimeType ?p). \<not> is_line_terminator c)"
      using m by simp
  qed
  have none: "\<not> (\<exists>pre' t' rest'. ?h = pre' @ colon # t' @ semicolon # rest' \<and>
          (\<forall>c\<in>set t'. \<not> is_line_terminator c)) \<longrightarrow> mimeType ?p = js ''image/png''"
    using match_mime_None_iff[of ?h] by auto
  from p first some none show ?thesis by blast
qed

lemmas js_eval = js_def comma_def colon_def semicolon_def is_line_terminator_def dquote_def newline_def

theorem parseDataUrl_lenient_witness:
  "\<exists>p. parseDataUrl (js ''data:image/jpeg;base64,AAAA'') = Inr p \<and> mimeType p = js ''image/jpeg''"
proof -
  have shape: "takeWhile (\<lambda>c. c \<noteq> comma) (js ''data:image/jpeg;base64,AAAA'')
      = js ''data'' @ colon # js ''image/jpeg'' @ semicolon # js ''base64'' \<and> colon \<notin> set (js ''data'') \<and>
        semicolon \<notin> set (js ''image/jpeg'') \<and> (\<forall>c\<in>set (js ''image/jpeg''). \<not> is_line_terminator c)"
    by (simp add: js_eval)
  from parseDataUrl_lenient[of "js ''data:image/jpeg;base64,AAAA''" "js ''data''" "js ''image/jpeg''" "js ''base64''"]
    shape show ?thesis by blast
qed

text \<open>
  The claim as stated sends every input without the \<^verbatim>\<open><header>,<payload>\<close> shape to the
  default type.  This input has no comma, and its media type is \<^verbatim>\<open>image/jpeg\<close>.
\<close>

theorem parseDataUrl_no_comma_counterexample:
  "comma \<notin> set (js ''data:image/jpeg;base64'') \<and>
   parseDataUrl (js ''data:image/jpeg;base64'') = Inr \<lparr> mimeType = js ''image/jpeg'', payload = None \<rparr> \<and>
   js ''image/jpeg'' \<noteq> js ''image/png''"
  by (simp add: parseDataUrl_def js_eval)

section \<open>The geometry of the compositor\<close>

subsection \<open>Doubles\<close>

lemma pow2_powi: "pow2 k = 2 powi k"
  by (simp add: pow2_def power_int_def inverse_eq_divide power_one_over)



lemma pow2_nat: "pow2 (int n) = 2 ^ n"
  by (simp add: pow2_def)

lemma pow2_neg_nat: "pow2 (- int n) = 1 / 2 ^ n"
  by (simp add: pow2_powi power_int_minus inverse_eq_divide)















subsection \<open>Aspect ratio strings\<close>














subsection \<open>Rounding a computed size\<close>





subsection \<open>The two branches of the layout\<close>






















section \<open>Generation: the effective count\<close>

lemma of_char_word_inject: "(of_char x :: jschar) = of_char y \<longleftrightarrow> x = y"
proof
  assume eq: "(of_char x :: jschar) = of_char y"
  have "(of_nat (of_char x) :: jschar) = of_nat (of_char y)"
    using eq by (simp only: of_nat_of_char)
  then have "take_bit 16 (of_char x :: nat) = take_bit 16 (of_char y :: nat)"
    by (simp add: word_of_nat_eq_iff)
  moreover have "(of_char c :: nat) < 2 ^ 16" for c
  proof -
    have "(of_char c :: nat) < 256" by simp
    also have "(256 :: nat) < 2 ^ 16" by simp
    finally show ?thesis .
  qed
  ultimately have "(of_char x :: nat) = of_char y"
    by (simp add: take_bit_nat_eq_self)
  then show "x = y" by simp
qed simp

lemma js_inject [simp]: "js a = js b \<longleftrightarrow> a = b"
  unfolding js_def by (simp add: inj_map_eq_map inj_def of_char_word_inject)

lemma ask_requests: "snd (ask e req f) = [GenerateContent req]"
  by (simp add: ask_def split: sum.splits)

lemma ask_rejected: "generateContent e req = Inl err \<Longrightarrow> fst (ask e req f) = Inl err"
  by (simp add: ask_def)

lemma generateFromImageAndText_requests:
  "GenerateImages q \<notin> set (snd (generateFromImageAndText e p refs))"
  by (auto simp: generateFromImageAndText_def ask_requests split: sum.splits)

lemma generateFromText_requests:
  "GenerateImages q \<in> set (snd (generateFromText e p c a s m)) \<Longrightarrow>
     m = js ''imagen-4.0-generate-001'' \<and> numberOfImages q = c"
  by (auto simp: generateFromText_def Let_def ask_requests split: sum.splits if_splits)

lemma generateFromText_batch:
  "\<exists>q. snd (generateFromText e p c a s (js ''imagen-4.0-generate-001'')) = [GenerateImages q] \<and>
        numberOfImages q = c"
  by (auto simp: generateFromText_def Let_def split: sum.splits)

lemma requests_run_handler: "requests (run_handler started call settle) = snd call"
  by (simp add: run_handler_def split: prod.splits)

lemma final_run_handler: "final (run_handler started call settle) = fst (settle (fst call) started)"
  by (simp add: run_handler_def split: prod.splits)

lemma completion_run_handler: "completion (run_handler started call settle) = snd (settle (fst call) started)"
  by (simp add: run_handler_def split: prod.splits)

lemma early_return_simps:
  "final (early_return m st) = st\<lparr>error := Some m\<rparr>"
  "requests (early_return m st) = []"
  "completion (early_return m st) = Returned"
  by (simp_all add: early_return_def)

lemma handleGenerate_requests:
  "GenerateImages q \<in> set (requests (handleGenerate e count st)) \<Longrightarrow>
     imageModel st = js ''imagen-4.0-generate-001'' \<and> referenceImages st = [] \<and> numberOfImages q = count"
proof -
  assume a: "GenerateImages q \<in> set (requests (handleGenerate e count st))"
  then have sent: "GenerateImages q \<in> set (snd (handleGenerate_call e count st))"
    by (auto simp: handleGenerate_def requests_run_handler early_return_simps split: if_splits)
  show ?thesis
  proof (cases "length (referenceImages st) > 0")
    case True
    then show ?thesis using sent generateFromImageAndText_requests
      by (simp add: handleGenerate_call_def)
  next
    case False
    then have "GenerateImages q \<in> set (snd (generateFromText e (prompt st) (effectiveCount st count)
        (aspectRatio st) (style st) (imageModel st)))"
      using sent by (simp add: handleGenerate_call_def)
    from generateFromText_requests[OF this] False show ?thesis
      by (auto simp: effectiveCount_def isGeminiModel_def)
  qed
qed

text \<open>
  Claim C2.  The effective count is 1 whenever a reference image is attached or the image
  model is one of the two multimodal models; then the placeholder count is 1 and no batch
  request is sent at all.  A batch request for 4 images reaches the backend only when the
  model is \<^verbatim>\<open>imagen-4.0-generate-001\<close>, the reference list is empty and 4 was asked for; and
  with that model, no reference image and a prompt that is not blank, the one request sent
  asks for exactly the count given.
\<close>

theorem effective_count_policy:
  "(length (referenceImages st) > 0 \<or> imageModel st = js ''gemini-2.5-flash-image''
      \<or> imageModel st = js ''gemini-3-pro-image-preview'' \<longrightarrow>
        effectiveCount st count = 1 \<and>
        loadingCount (handleGenerate_begin count st st') = 1 \<and>
        (\<forall>q. GenerateImages q \<notin> set (requests (handleGenerate e count st)))) \<and>
   (\<forall>q. GenerateImages q \<in> set (requests (handleGenerate e count st)) \<and> numberOfImages q = 4 \<longrightarrow>
        imageModel st = js ''imagen-4.0-generate-001'' \<and> referenceImages st = [] \<and> count = 4) \<and>
   (imageModel st = js ''imagen-4.0-generate-001'' \<and> referenceImages st = [] \<and> trim (prompt st) \<noteq> [] \<longrightarrow>
        effectiveCount st count = count \<and>
        (\<exists>q. requests (handleGenerate e count st) = [GenerateImages q] \<and> numberOfImages q = count))"
proof (intro conjI impI allI)
  assume c: "length (referenceImages st) > 0 \<or> imageModel st = js ''gemini-2.5-flash-image''
      \<or> imageModel st = js ''gemini-3-pro-image-preview''"
  then show "effectiveCount st count = 1"
    by (auto simp: effectiveCount_def isGeminiModel_def)
  then show "loadingCount (handleGenerate_begin count st st') = 1"
    by (simp add: handleGenerate_begin_def)
  fix q
  show "GenerateImages q \<notin> set (requests (handleGenerate e count st))"
    using handleGenerate_requests[of q e count st] c by auto
next
  fix q
  assume "GenerateImages q \<in> set (requests (handleGenerate e count st)) \<and> numberOfImages q = 4"
  then show "imageModel st = js ''imagen-4.0-generate-001''" "referenceImages st = []" "count = 4"
    using handleGenerate_requests[of q e count st] by auto
next
  assume b: "imageModel st = js ''imagen-4.0-generate-001'' \<and> referenceImages st = [] \<and> trim (prompt st) \<noteq> []"
  then show "effectiveCount st count = count"
    by (simp add: effectiveCount_def isGeminiModel_def)
  then show "\<exists>q. requests (handleGenerate e count st) = [GenerateImages q] \<and> numberOfImages q = count"
    using b generateFromText_batch[of e "prompt st" count "aspectRatio st" "style st"]
    by (simp add: handleGenerate_def requests_run_handler handleGenerate_call_def)
qed

lemmas state_eval = initial_state_def initial_writer_def sample_env_def rejecting_env_def

theorem effective_count_policy_witness:
  "effectiveCount (initial_state\<lparr>referenceImages := [js ''data:image/png;base64,AAAA'']\<rparr>) 4 = 1 \<and>
   (\<exists>q. requests (handleGenerate sample_env 4
            (initial_state\<lparr>prompt := js ''a red fox in snow'', imageModel := js ''imagen-4.0-generate-001''\<rparr>))
          = [GenerateImages q] \<and> numberOfImages q = 4)"
proof -
  have one: "length (referenceImages (initial_state\<lparr>referenceImages := [js ''data:image/png;base64,AAAA'']\<rparr>)) > 0"
    by simp
  have batch: "imageModel (initial_state\<lparr>prompt := js ''a red fox in snow'', imageModel := js ''imagen-4.0-generate-001''\<rparr>)
        = js ''imagen-4.0-generate-001'' \<and>
      referenceImages (initial_state\<lparr>prompt := js ''a red fox in snow'', imageModel := js ''imagen-4.0-generate-001''\<rparr>) = [] \<and>
      trim (prompt (initial_state\<lparr>prompt := js ''a red fox in snow'', imageModel := js ''imagen-4.0-generate-001''\<rparr>)) \<noteq> []"
    by (simp add: initial_state_def trim_def is_white_space_def js_def)
  from effective_count_policy[of "initial_state\<lparr>referenceImages := [js ''data:image/png;base64,AAAA'']\<rparr>" 4] one
  have "effectiveCount (initial_state\<lparr>referenceImages := [js ''data:image/png;base64,AAAA'']\<rparr>) 4 = 1"
    by blast
  moreover from effective_count_policy[of
      "initial_state\<lparr>prompt := js ''a red fox in snow'', imageModel := js ''imagen-4.0-generate-001''\<rparr>"
      4 _ sample_env] batch
  have "\<exists>q. requests (handleGenerate sample_env 4
            (initial_state\<lparr>prompt := js ''a red fox in snow'', imageModel := js ''imagen-4.0-generate-001''\<rparr>))
          = [GenerateImages q] \<and> numberOfImages q = 4"
    by blast
  ultimately show ?thesis by blast
qed

section \<open>In-flight slots and the aspect ratio after settlement\<close>

lemma catch_finally_fin: "\<exists>s. fst (catch_finally err set_error fin st) = fin s"
  by (auto simp: catch_finally_def split: sum.splits)

lemma try_fold_catch_finally_fin: "\<exists>s. fst (try_fold_catch_finally outcome on_value set_error fin st) = fin s"
proof (cases outcome)
  case (Inl err)
  then show ?thesis
    using catch_finally_fin[of err set_error fin st] by (simp add: try_fold_catch_finally_def)
next
  case (Inr v)
  obtain st1 thrown where fold: "on_value v st = (st1, thrown)"
    by (cases "on_value v st")
  show ?thesis
  proof (cases thrown)
    case None
    with Inr fold show ?thesis by (auto simp: try_fold_catch_finally_def)
  next
    case (Some err)
    with Inr fold show ?thesis
      using catch_finally_fin[of err set_error fin st1] by (simp add: try_fold_catch_finally_def)
  qed
qed

lemma onPostToPrompt_throws:
  "snd (onPostToPrompt e fullPrompt w) = snd (handlePostStoryToPrompt e fullPrompt st)"
  by (cases w) (simp add: onPostToPrompt_def handlePostStoryToPrompt_def)

lemma writer_finally_slot: "loadingAction (fst (writer_finally w)) = None"
  by (cases w) (simp add: writer_finally_def)

lemma writer_fold_slot:
  "loadingAction (fst (fst (try_fold_catch_finally outcome on_value writer_setError writer_finally w))) = None"
  using try_fold_catch_finally_fin[of outcome on_value writer_setError writer_finally w]
  by (auto simp: writer_finally_slot)

lemma writer_final_run_writer:
  "writer_final (run_writer started call settle) = fst (fst (settle (fst call) started))"
  by (simp add: run_writer_def split: prod.splits)

lemma writer_completion_run_writer:
  "writer_completion (run_writer started call settle) = snd (settle (fst call) started)"
  by (simp add: run_writer_def split: prod.splits)

lemma posted_run_writer:
  "posted (run_writer started call settle) = snd (fst (settle (fst call) started))"
  by (simp add: run_writer_def split: prod.splits)

lemma app_begin_tags:
  "loading (handleGenerate_begin count captured st) \<and>
   processingAction (handleDescribe_begin index st) = Some (js ''describe-'' @ decimal index) \<and>
   processingAction (handleCaption_begin index st) = Some (js ''caption-'' @ decimal index) \<and>
   processingAction (handleRemoveText_begin imageSrc index st) = Some (js ''remove-text-'' @ decimal index) \<and>
   processingAction (handleExpandImage_begin index target st) = Some (js ''expand-'' @ decimal index) \<and>
   promptActionLoading (handleDescribeRef1_begin st) = Some (js ''describe-ref-1'') \<and>
   promptActionLoading (handleCaptionRef1_begin st) = Some (js ''caption-ref-1'') \<and>
   promptActionLoading (handleRemoveTextRef1_begin ref1 st) = Some (js ''remove-text-ref-1'') \<and>
   promptActionLoading (handleExpandRef1_begin target st) = Some (js ''expand-ref-1'') \<and>
   promptActionLoading (handleEnhancePrompt_begin st) = Some (js ''enhance'') \<and>
   promptActionLoading (handleConcept_begin st) = Some (js ''concept'') \<and>
   loadingAction (fst (writer_begin tag w)) = Some tag"
  by (simp add: handleGenerate_begin_def handleDescribe_begin_def handleCaption_begin_def
      handleRemoveText_begin_def handleExpandImage_begin_def handleDescribeRef1_begin_def
      handleCaptionRef1_begin_def handleRemoveTextRef1_begin_def handleExpandRef1_begin_def
      handleEnhancePrompt_begin_def handleConcept_begin_def writer_begin_def)

lemma generate_settle_slot:
  "\<not> loading (fst (handleGenerate_settle e outcome st)) \<and> loadingCount (fst (handleGenerate_settle e outcome st)) = 0"
  by (simp add: handleGenerate_settle_def Let_def)

lemma card_settle_slots:
  "processingAction (fst (handleDescribe_settle text_outcome st)) = None \<and>
   processingAction (fst (handleCaption_settle imageSrc text_outcome st)) = None \<and>
   processingAction (fst (handleRemoveText_settle images_outcome st)) = None \<and>
   \<not> loading (fst (handleRemoveText_settle images_outcome st)) \<and>
   processingAction (fst (handleExpandImage_settle images_outcome st)) = None \<and>
   \<not> loading (fst (handleExpandImage_settle images_outcome st))"
  by (simp add: handleDescribe_settle_def handleCaption_settle_def handleRemoveText_settle_def
      handleExpandImage_settle_def try_catch_finally_def split: sum.splits)

lemma prompt_settle_slots:
  "promptActionLoading (fst (handleDescribeRef1_settle text_outcome st)) = None \<and>
   promptActionLoading (fst (handleCaptionRef1_settle ref1 text_outcome st)) = None \<and>
   promptActionLoading (fst (handleRemoveTextRef1_settle images_outcome st)) = None \<and>
   \<not> loading (fst (handleRemoveTextRef1_settle images_outcome st)) \<and>
   promptActionLoading (fst (handleExpandRef1_settle images_outcome st)) = None \<and>
   \<not> loading (fst (handleExpandRef1_settle images_outcome st)) \<and>
   promptActionLoading (fst (handleEnhancePrompt_settle text_outcome st)) = None \<and>
   promptActionLoading (fst (handleConcept_settle text_outcome st)) = None"
  by (simp add: handleDescribeRef1_settle_def handleCaptionRef1_settle_def handleRemoveTextRef1_settle_def
      handleExpandRef1_settle_def handleEnhancePrompt_settle_def handleConcept_settle_def
      try_catch_finally_def split: sum.splits)

lemma writer_settle_slots:
  "loadingAction (fst (fst (handleIdea_settle capturedStyle text_outcome w))) = None \<and>
   loadingAction (fst (fst (handleCustomCaption_settle e text_outcome w))) = None \<and>
   loadingAction (fst (fst (handleThaiCaption_settle e text_outcome w))) = None \<and>
   loadingAction (fst (fst (handleNewThaiCaption_settle e pair_outcome w))) = None \<and>
   loadingAction (fst (fst (handlePolish_settle e text_outcome w))) = None \<and>
   loadingAction (fst (fst (handleTranslate_settle e text_outcome w))) = None"
  by (simp add: handleIdea_settle_def handleCustomCaption_settle_def handleThaiCaption_settle_def
      handleNewThaiCaption_settle_def handlePolish_settle_def handleTranslate_settle_def
      writer_fold_slot try_catch_finally_def writer_finally_slot split: sum.splits)

lemma settle_after_throwing_catch:
  "handleDescribe_settle (Inl Nullish) st = (st\<lparr>processingAction := None\<rparr>, Threw TypeError)"
  by (simp add: handleDescribe_settle_def try_catch_finally_def error_message_def)

lemma polish_fold_throws:
  "controlsElement e \<and> scrollIntoViewThrows e \<and> scrollIntoViewError e = JsError m \<longrightarrow>
     handlePolish_settle e (Inr polished) (ws, posts)
       = ((ws\<lparr>writer_error := Some m, loadingAction := None\<rparr>, posts @ [polished]), Returned)"
  by (simp add: handlePolish_settle_def try_fold_catch_finally_def catch_finally_def onPostToPrompt_def
      scroll_to_controls_def error_message_def writer_setError_def writer_finally_def)

lemma polish_fold_and_catch_throw:
  "controlsElement e \<and> scrollIntoViewThrows e \<and> scrollIntoViewError e = Nullish \<longrightarrow>
     handlePolish_settle e (Inr polished) (ws, posts)
       = ((ws\<lparr>loadingAction := None\<rparr>, posts @ [polished]), Threw TypeError)"
  by (simp add: handlePolish_settle_def try_fold_catch_finally_def catch_finally_def onPostToPrompt_def
      scroll_to_controls_def error_message_def writer_setError_def writer_finally_def)

lemma expand_settle_ratio:
  "aspectRatio (fst (handleExpandImage_settle outcome st)) = js ''16:9'' \<and>
   aspectRatio (fst (handleExpandRef1_settle outcome st)) = js ''16:9''"
  by (simp add: handleExpandImage_settle_def handleExpandRef1_settle_def try_catch_finally_def
      split: sum.splits)

lemma run_expand_settled:
  "completion (run_expand started call settle) \<noteq> Pending \<Longrightarrow>
     \<exists>outcome. final (run_expand started call settle) = fst (settle outcome started)"
  by (cases call) (auto simp: run_expand_def final_run_handler split: option.splits)

lemma generate_slot:
  "trim (prompt st) \<noteq> [] \<and>
   (hasKey e \<or> imageModel st \<noteq> js ''gemini-3-pro-image-preview'' \<or> credential_bootstrap e) \<longrightarrow>
     \<not> loading (final (handleGenerate e count st)) \<and> loadingCount (final (handleGenerate e count st)) = 0"
proof
  assume a: "trim (prompt st) \<noteq> [] \<and>
    (hasKey e \<or> imageModel st \<noteq> js ''gemini-3-pro-image-preview'' \<or> credential_bootstrap e)"
  then have "handleGenerate e count st =
      run_handler (handleGenerate_begin count st st) (handleGenerate_call e count st) (handleGenerate_settle e)"
    by (auto simp: handleGenerate_def)
  then show "\<not> loading (final (handleGenerate e count st)) \<and> loadingCount (final (handleGenerate e count st)) = 0"
    by (simp add: final_run_handler generate_settle_slot)
qed

lemma card_slots:
  "processingAction (final (handleDescribe e imageSrc index st)) = None \<and>
   processingAction (final (handleCaption e imageSrc index st)) = None \<and>
   processingAction (final (handleRemoveText e imageSrc index st)) = None \<and>
   \<not> loading (final (handleRemoveText e imageSrc index st))"
  by (simp add: handleDescribe_def handleCaption_def handleRemoveText_def final_run_handler card_settle_slots)

lemma expand_slot:
  "completion (handleExpandImage e imageSrc index target st) \<noteq> Pending \<longrightarrow>
     processingAction (final (handleExpandImage e imageSrc index target st)) = None \<and>
     \<not> loading (final (handleExpandImage e imageSrc index target st))"
proof
  assume "completion (handleExpandImage e imageSrc index target st) \<noteq> Pending"
  then obtain o1 where "final (handleExpandImage e imageSrc index target st)
      = fst (handleExpandImage_settle o1 (handleExpandImage_begin index target st))"
    unfolding handleExpandImage_def using run_expand_settled by blast
  then show "processingAction (final (handleExpandImage e imageSrc index target st)) = None \<and>
     \<not> loading (final (handleExpandImage e imageSrc index target st))"
    by (simp add: card_settle_slots)
qed

lemma ref1_slots:
  "referenceImages st \<noteq> [] \<longrightarrow>
     promptActionLoading (final (handleDescribeRef1 e st)) = None \<and>
     promptActionLoading (final (handleCaptionRef1 e st)) = None \<and>
     promptActionLoading (final (handleRemoveTextRef1 e st)) = None \<and>
     \<not> loading (final (handleRemoveTextRef1 e st))"
  by (cases "referenceImages st")
    (simp_all add: handleDescribeRef1_def handleCaptionRef1_def handleRemoveTextRef1_def final_run_handler
      prompt_settle_slots)

lemma expand_ref1_slot:
  "referenceImages st \<noteq> [] \<and> completion (handleExpandRef1 e target st) \<noteq> Pending \<longrightarrow>
     promptActionLoading (final (handleExpandRef1 e target st)) = None \<and>
     \<not> loading (final (handleExpandRef1 e target st))"
proof
  assume a: "referenceImages st \<noteq> [] \<and> completion (handleExpandRef1 e target st) \<noteq> Pending"
  then obtain ref1 rest where refs: "referenceImages st = ref1 # rest"
    by (cases "referenceImages st") auto
  then have run: "handleExpandRef1 e target st =
      run_expand (handleExpandRef1_begin target st) (expandImage e ref1 target) handleExpandRef1_settle"
    by (simp add: handleExpandRef1_def)
  then obtain o1 where "final (handleExpandRef1 e target st)
      = fst (handleExpandRef1_settle o1 (handleExpandRef1_begin target st))"
    using a run_expand_settled by metis
  then show "promptActionLoading (final (handleExpandRef1 e target st)) = None \<and>
     \<not> loading (final (handleExpandRef1 e target st))"
    by (simp add: prompt_settle_slots)
qed

lemma prompt_slots:
  "trim (prompt st) \<noteq> [] \<longrightarrow>
     promptActionLoading (final (handleEnhancePrompt e st)) = None \<and>
     promptActionLoading (final (handleConcept e st)) = None"
  by (simp add: handleEnhancePrompt_def handleConcept_def final_run_handler prompt_settle_slots)

lemma idea_slot: "loadingAction (writer_final (handleIdea e props ws)) = None"
  by (simp add: handleIdea_def writer_final_run_writer writer_settle_slots)

lemma story_slots:
  "trim (story ws) \<noteq> [] \<longrightarrow>
     loadingAction (writer_final (handleCustomCaption e props ws)) = None \<and>
     loadingAction (writer_final (handleThaiCaption e props ws)) = None \<and>
     loadingAction (writer_final (handleNewThaiCaption e props ws)) = None \<and>
     loadingAction (writer_final (handlePolish e props ws)) = None \<and>
     loadingAction (writer_final (handleTranslate e props lang ws)) = None"
  by (simp add: handleCustomCaption_def handleThaiCaption_def handleNewThaiCaption_def handlePolish_def
      handleTranslate_def writer_final_run_writer writer_settle_slots)

lemma polish_throws_in_fold:
  "controlsElement e \<and> scrollIntoViewThrows e \<and> scrollIntoViewError e = Nullish \<and> trim (story ws) \<noteq> [] \<and>
   fst (polishStory e (story ws) (selectedReasoningModel props)) = Inr polished \<longrightarrow>
     writer_completion (handlePolish e props ws) = Threw TypeError \<and>
     posted (handlePolish e props ws) = [polished] \<and>
     loadingAction (writer_final (handlePolish e props ws)) = None"
  by (simp add: handlePolish_def writer_final_run_writer writer_completion_run_writer posted_run_writer
      writer_begin_def polish_fold_and_catch_throw)

lemmas handler_eval =
  run_handler_def run_expand_def early_return_def try_catch_finally_def error_message_def setError_def
  ask_def response_images_def text_or_empty_def image_question_def text_question_def Let_def

text \<open>
  Claim C7.  The in-flight set of the code is four nullable slots: \<^verbatim>\<open>loading\<close> (with the
  placeholder count), \<^verbatim>\<open>processingAction\<close>, \<^verbatim>\<open>promptActionLoading\<close> and, in the story
  component, \<^verbatim>\<open>loadingAction\<close>.  Every operation writes its tag into one slot before it
  dispatches.  A whole operation that was dispatched (its precondition holds) and has
  settled (the promise of an expansion may stay pending) ends with that slot empty, on
  every path: the call resolved, the call rejected, the fold of the result threw (the
  story handlers call \<^verbatim>\<open>onPostToPrompt\<close>, whose scroll may throw, inside the \<^verbatim>\<open>try\<close> block),
  or the \<^verbatim>\<open>catch\<close> block itself threw (reading the message of \<^verbatim>\<open>null\<close>); the \<^verbatim>\<open>finally\<close>
  block runs on each of them.  The same holds of each continuation alone, in whatever state
  the session is when the call settles.
\<close>

theorem in_flight_cleared_on_settle:
  "(loading (handleGenerate_begin count captured st) \<and>
    processingAction (handleDescribe_begin index st) = Some (js ''describe-'' @ decimal index) \<and>
    processingAction (handleCaption_begin index st) = Some (js ''caption-'' @ decimal index) \<and>
    processingAction (handleRemoveText_begin imageSrc index st) = Some (js ''remove-text-'' @ decimal index) \<and>
    processingAction (handleExpandImage_begin index target st) = Some (js ''expand-'' @ decimal index) \<and>
    promptActionLoading (handleDescribeRef1_begin st) = Some (js ''describe-ref-1'') \<and>
    promptActionLoading (handleCaptionRef1_begin st) = Some (js ''caption-ref-1'') \<and>
    promptActionLoading (handleRemoveTextRef1_begin ref1 st) = Some (js ''remove-text-ref-1'') \<and>
    promptActionLoading (handleExpandRef1_begin target st) = Some (js ''expand-ref-1'') \<and>
    promptActionLoading (handleEnhancePrompt_begin st) = Some (js ''enhance'') \<and>
    promptActionLoading (handleConcept_begin st) = Some (js ''concept'') \<and>
    loadingAction (fst (writer_begin tag w)) = Some tag) \<and>
   (trim (prompt st) \<noteq> [] \<and>
    (hasKey e \<or> imageModel st \<noteq> js ''gemini-3-pro-image-preview'' \<or> credential_bootstrap e) \<longrightarrow>
      \<not> loading (final (handleGenerate e count st)) \<and> loadingCount (final (handleGenerate e count st)) = 0) \<and>
   (processingAction (final (handleDescribe e imageSrc index st)) = None \<and>
    processingAction (final (handleCaption e imageSrc index st)) = None \<and>
    processingAction (final (handleRemoveText e imageSrc index st)) = None \<and>
    \<not> loading (final (handleRemoveText e imageSrc index st))) \<and>
   (completion (handleExpandImage e imageSrc index target st) \<noteq> Pending \<longrightarrow>
      processingAction (final (handleExpandImage e imageSrc index target st)) = None \<and>
      \<not> loading (final (handleExpandImage e imageSrc index target st))) \<and>
   (referenceImages st \<noteq> [] \<longrightarrow>
      promptActionLoading (final (handleDescribeRef1 e st)) = None \<and>
      promptActionLoading (final (handleCaptionRef1 e st)) = None \<and>
      promptActionLoading (final (handleRemoveTextRef1 e st)) = None \<and>
      \<not> loading (final (handleRemoveTextRef1 e st))) \<and>
   (referenceImages st \<noteq> [] \<and> completion (handleExpandRef1 e target st) \<noteq> Pending \<longrightarrow>
      promptActionLoading (final (handleExpandRef1 e target st)) = None \<and>
      \<not> loading (final (handleExpandRef1 e target st))) \<and>
   (trim (prompt st) \<noteq> [] \<longrightarrow>
      promptActionLoading (final (handleEnhancePrompt e st)) = None \<and>
      promptActionLoading (final (handleConcept e st)) = None) \<and>
   loadingAction (writer_final (handleIdea e props ws)) = None \<and>
   (trim (story ws) \<noteq> [] \<longrightarrow>
      loadingAction (writer_final (handleCustomCaption e props ws)) = None \<and>
      loadingAction (writer_final (handleThaiCaption e props ws)) = None \<and>
      loadingAction (writer_final (handleNewThaiCaption e props ws)) = None \<and>
      loadingAction (writer_final (handlePolish e props ws)) = None \<and>
      loadingAction (writer_final (handleTranslate e props lang ws)) = None) \<and>
   (controlsElement e \<and> scrollIntoViewThrows e \<and> scrollIntoViewError e = Nullish \<and> trim (story ws) \<noteq> [] \<and>
    fst (polishStory e (story ws) (selectedReasoningModel props)) = Inr polished \<longrightarrow>
      writer_completion (handlePolish e props ws) = Threw TypeError \<and>
      posted (handlePolish e props ws) = [polished] \<and>
      loadingAction (writer_final (handlePolish e props ws)) = None) \<and>
   (\<not> loading (fst (handleGenerate_settle e images_outcome st')) \<and>
    loadingCount (fst (handleGenerate_settle e images_outcome st')) = 0) \<and>
   (processingAction (fst (handleDescribe_settle text_outcome st')) = None \<and>
    processingAction (fst (handleCaption_settle imageSrc text_outcome st')) = None \<and>
    processingAction (fst (handleRemoveText_settle images_outcome st')) = None \<and>
    \<not> loading (fst (handleRemoveText_settle images_outcome st')) \<and>
    processingAction (fst (handleExpandImage_settle images_outcome st')) = None \<and>
    \<not> loading (fst (handleExpandImage_settle images_outcome st'))) \<and>
   (promptActionLoading (fst (handleDescribeRef1_settle text_outcome st')) = None \<and>
    promptActionLoading (fst (handleCaptionRef1_settle ref1 text_outcome st')) = None \<and>
    promptActionLoading (fst (handleRemoveTextRef1_settle images_outcome st')) = None \<and>
    \<not> loading (fst (handleRemoveTextRef1_settle images_outcome st')) \<and>
    promptActionLoading (fst (handleExpandRef1_settle images_outcome st')) = None \<and>
    \<not> loading (fst (handleExpandRef1_settle images_outcome st')) \<and>
    promptActionLoading (fst (handleEnhancePrompt_settle text_outcome st')) = None \<and>
    promptActionLoading (fst (handleConcept_settle text_outcome st')) = None) \<and>
   (loadingAction (fst (fst (handleIdea_settle capturedStyle text_outcome w'))) = None \<and>
    loadingAction (fst (fst (handleCustomCaption_settle e text_outcome w'))) = None \<and>
    loadingAction (fst (fst (handleThaiCaption_settle e text_outcome w'))) = None \<and>
    loadingAction (fst (fst (handleNewThaiCaption_settle e pair_outcome w'))) = None \<and>
    loadingAction (fst (fst (handlePolish_settle e text_outcome w'))) = None \<and>
    loadingAction (fst (fst (handleTranslate_settle e text_outcome w'))) = None) \<and>
   handleDescribe_settle (Inl Nullish) st' = (st'\<lparr>processingAction := None\<rparr>, Threw TypeError) \<and>
   (controlsElement e' \<and> scrollIntoViewThrows e' \<and> scrollIntoViewError e' = JsError m \<longrightarrow>
      handlePolish_settle e' (Inr polished') (ws', posts)
        = ((ws'\<lparr>writer_error := Some m, loadingAction := None\<rparr>, posts @ [polished']), Returned))"
  by (intro conjI;
      (rule generate_slot expand_slot ref1_slots expand_ref1_slot prompt_slots story_slots
         polish_throws_in_fold polish_fold_throws
       | simp only: app_begin_tags card_slots idea_slot generate_settle_slot card_settle_slots
           prompt_settle_slots writer_settle_slots settle_after_throwing_catch simp_thms))

theorem in_flight_cleared_on_settle_witness:
  "(\<not> loading (final (handleGenerate (scroll_throwing_env Nullish) 4
        (initial_state\<lparr>prompt := js ''a fox'', referenceImages := [js ''data:image/png;base64,AAAA'']\<rparr>))) \<and>
    loadingCount (final (handleGenerate (scroll_throwing_env Nullish) 4
        (initial_state\<lparr>prompt := js ''a fox'', referenceImages := [js ''data:image/png;base64,AAAA'']\<rparr>))) = 0) \<and>
   (processingAction (final (handleExpandImage (scroll_throwing_env Nullish) (js ''data:image/png;base64,AAAA'') 0
        (js ''1:1'')
        (initial_state\<lparr>prompt := js ''a fox'', referenceImages := [js ''data:image/png;base64,AAAA'']\<rparr>))) = None \<and>
    \<not> loading (final (handleExpandImage (scroll_throwing_env Nullish) (js ''data:image/png;base64,AAAA'') 0
        (js ''1:1'')
        (initial_state\<lparr>prompt := js ''a fox'', referenceImages := [js ''data:image/png;base64,AAAA'']\<rparr>)))) \<and>
   (promptActionLoading (final (handleDescribeRef1 (scroll_throwing_env Nullish)
        (initial_state\<lparr>prompt := js ''a fox'', referenceImages := [js ''data:image/png;base64,AAAA'']\<rparr>))) = None \<and>
    promptActionLoading (final (handleCaptionRef1 (scroll_throwing_env Nullish)
        (initial_state\<lparr>prompt := js ''a fox'', referenceImages := [js ''data:image/png;base64,AAAA'']\<rparr>))) = None \<and>
    promptActionLoading (final (handleRemoveTextRef1 (scroll_throwing_env Nullish)
        (initial_state\<lparr>prompt := js ''a fox'', referenceImages := [js ''data:image/png;base64,AAAA'']\<rparr>))) = None \<and>
    \<not> loading (final (handleRemoveTextRef1 (scroll_throwing_env Nullish)
        (initial_state\<lparr>prompt := js ''a fox'', referenceImages := [js ''data:image/png;base64,AAAA'']\<rparr>)))) \<and>
   (promptActionLoading (final (handleExpandRef1 (scroll_throwing_env Nullish) (js ''1:1'')
        (initial_state\<lparr>prompt := js ''a fox'', referenceImages := [js ''data:image/png;base64,AAAA'']\<rparr>))) = None \<and>
    \<not> loading (final (handleExpandRef1 (scroll_throwing_env Nullish) (js ''1:1'')
        (initial_state\<lparr>prompt := js ''a fox'', referenceImages := [js ''data:image/png;base64,AAAA'']\<rparr>)))) \<and>
   (promptActionLoading (final (handleEnhancePrompt (scroll_throwing_env Nullish)
        (initial_state\<lparr>prompt := js ''a fox'', referenceImages := [js ''data:image/png;base64,AAAA'']\<rparr>))) = None \<and>
    promptActionLoading (final (handleConcept (scroll_throwing_env Nullish)
        (initial_state\<lparr>prompt := js ''a fox'', referenceImages := [js ''data:image/png;base64,AAAA'']\<rparr>))) = None) \<and>
   (loadingAction (writer_final (handleCustomCaption (scroll_throwing_env Nullish)
        \<lparr>selectedStyle = js ''photorealistic'', selectedReasoningModel = js ''gemini-3-flash-preview'',
         captionLength = 60\<rparr> (initial_writer\<lparr>story := js ''Once''\<rparr>))) = None \<and>
    loadingAction (writer_final (handleThaiCaption (scroll_throwing_env Nullish)
        \<lparr>selectedStyle = js ''photorealistic'', selectedReasoningModel = js ''gemini-3-flash-preview'',
         captionLength = 60\<rparr> (initial_writer\<lparr>story := js ''Once''\<rparr>))) = None \<and>
    loadingAction (writer_final (handleNewThaiCaption (scroll_throwing_env Nullish)
        \<lparr>selectedStyle = js ''photorealistic'', selectedReasoningModel = js ''gemini-3-flash-preview'',
         captionLength = 60\<rparr> (initial_writer\<lparr>story := js ''Once''\<rparr>))) = None \<and>
    loadingAction (writer_final (handlePolish (scroll_throwing_env Nullish)
        \<lparr>selectedStyle = js ''photorealistic'', selectedReasoningModel = js ''gemini-3-flash-preview'',
         captionLength = 60\<rparr> (initial_writer\<lparr>story := js ''Once''\<rparr>))) = None \<and>
    loadingAction (writer_final (handleTranslate (scroll_throwing_env Nullish)
        \<lparr>selectedStyle = js ''photorealistic'', selectedReasoningModel = js ''gemini-3-flash-preview'',
         captionLength = 60\<rparr> Thai (initial_writer\<lparr>story := js ''Once''\<rparr>))) = None) \<and>
   (writer_completion (handlePolish (scroll_throwing_env Nullish)
        \<lparr>selectedStyle = js ''photorealistic'', selectedReasoningModel = js ''gemini-3-flash-preview'',
         captionLength = 60\<rparr> (initial_writer\<lparr>story := js ''Once''\<rparr>)) = Threw TypeError \<and>
    posted (handlePolish (scroll_throwing_env Nullish)
        \<lparr>selectedStyle = js ''photorealistic'', selectedReasoningModel = js ''gemini-3-flash-preview'',
         captionLength = 60\<rparr> (initial_writer\<lparr>story := js ''Once''\<rparr>)) = [js ''A fox'']) \<and>
   handlePolish_settle (scroll_throwing_env (JsError (js ''scrollIntoView failed''))) (Inr (js ''A fox''))
       (initial_writer\<lparr>loadingAction := Some (js ''polish'')\<rparr>, [])
     = ((initial_writer\<lparr>loadingAction := Some (js ''polish''),
           writer_error := Some (js ''scrollIntoView failed''), loadingAction := None\<rparr>, [js ''A fox'']), Returned)"
proof -
  let ?e = "scroll_throwing_env Nullish"
  let ?st = "initial_state\<lparr>prompt := js ''a fox'', referenceImages := [js ''data:image/png;base64,AAAA'']\<rparr>"
  let ?ws = "initial_writer\<lparr>story := js ''Once''\<rparr>"
  let ?props = "\<lparr>selectedStyle = js ''photorealistic'', selectedReasoningModel = js ''gemini-3-flash-preview'',
         captionLength = 60\<rparr>"
  let ?e' = "scroll_throwing_env (JsError (js ''scrollIntoView failed''))"
  have dispatched: "trim (prompt ?st) \<noteq> [] \<and>
      (hasKey ?e \<or> imageModel ?st \<noteq> js ''gemini-3-pro-image-preview'' \<or> credential_bootstrap ?e)"
    by (simp add: trim_def is_white_space_def js_def hasKey_def truthy_def scroll_throwing_env_def
        sample_env_def)
  have prompt_given: "trim (prompt ?st) \<noteq> []"
    using dispatched by blast
  have settled1: "completion (handleExpandImage ?e (js ''data:image/png;base64,AAAA'') 0 (js ''1:1'') ?st)
      \<noteq> Pending"
    by (simp add: handleExpandImage_def expandImage_def scroll_throwing_env_def sample_env_def handler_eval
        parseDataUrl_def handleExpandImage_settle_def js_eval)
  have refs: "referenceImages ?st \<noteq> []"
    by simp
  have settled2: "referenceImages ?st \<noteq> [] \<and> completion (handleExpandRef1 ?e (js ''1:1'') ?st) \<noteq> Pending"
    by (simp add: handleExpandRef1_def expandImage_def scroll_throwing_env_def sample_env_def handler_eval
        parseDataUrl_def handleExpandRef1_settle_def js_eval)
  have story_given: "trim (story ?ws) \<noteq> []"
    by (simp add: trim_def is_white_space_def js_def)
  have answer: "fst (polishStory ?e (story ?ws) (selectedReasoningModel ?props)) = Inr (js ''A fox'')"
    by (simp add: polishStory_def scroll_throwing_env_def sample_env_def handler_eval trim_def
        is_white_space_def js_def)
  have fold_throws: "controlsElement ?e \<and> scrollIntoViewThrows ?e \<and> scrollIntoViewError ?e = Nullish \<and>
      trim (story ?ws) \<noteq> [] \<and>
      fst (polishStory ?e (story ?ws) (selectedReasoningModel ?props)) = Inr (js ''A fox'')"
    using story_given answer by (simp add: scroll_throwing_env_def sample_env_def)
  have scroll_throws: "controlsElement ?e' \<and> scrollIntoViewThrows ?e' \<and>
      scrollIntoViewError ?e' = JsError (js ''scrollIntoView failed'')"
    by (simp add: scroll_throwing_env_def sample_env_def)
  note instance1 = in_flight_cleared_on_settle[where e = "?e" and st = "?st" and count = 4
      and imageSrc = "js ''data:image/png;base64,AAAA''" and index = 0 and target = "js ''1:1''"
      and ws = "?ws" and props = "?props" and lang = Thai and polished = "js ''A fox''"
      and e' = "?e'" and m = "js ''scrollIntoView failed''" and polished' = "js ''A fox''"
      and ws' = "initial_writer\<lparr>loadingAction := Some (js ''polish'')\<rparr>" and posts = "[]"]
  show ?thesis
    using instance1 dispatched prompt_given settled1 refs settled2 story_given fold_throws scroll_throws
    by (simp only: simp_thms append_Nil)
qed

text \<open>
  Claim C10.  The continuation of either expand handler ends by setting the aspect ratio
  to \<^verbatim>\<open>16:9\<close>, whatever the outcome of the call and whatever the state by then: the ratio
  chosen before and the target ratio of the expansion are both lost.  So a whole expand
  operation that was dispatched and has settled leaves \<^verbatim>\<open>16:9\<close>.  (The handler for the
  first reference image dispatches nothing when the reference list is empty.)
\<close>

theorem expand_resets_aspect_ratio:
  "aspectRatio (fst (handleExpandImage_settle outcome st')) = js ''16:9'' \<and>
   aspectRatio (fst (handleExpandRef1_settle outcome st')) = js ''16:9'' \<and>
   (completion (handleExpandImage e imageSrc index target st) \<noteq> Pending \<longrightarrow>
      aspectRatio (final (handleExpandImage e imageSrc index target st)) = js ''16:9'') \<and>
   (referenceImages st \<noteq> [] \<and> completion (handleExpandRef1 e target st) \<noteq> Pending \<longrightarrow>
      aspectRatio (final (handleExpandRef1 e target st)) = js ''16:9'')"
proof (intro conjI impI)
  show "aspectRatio (fst (handleExpandImage_settle outcome st')) = js ''16:9''"
    and "aspectRatio (fst (handleExpandRef1_settle outcome st')) = js ''16:9''"
    using expand_settle_ratio by blast+
next
  assume "completion (handleExpandImage e imageSrc index target st) \<noteq> Pending"
  then obtain o1 where "final (handleExpandImage e imageSrc index target st)
      = fst (handleExpandImage_settle o1 (handleExpandImage_begin index target st))"
    unfolding handleExpandImage_def using run_expand_settled by blast
  then show "aspectRatio (final (handleExpandImage e imageSrc index target st)) = js ''16:9''"
    using expand_settle_ratio by simp
next
  assume a: "referenceImages st \<noteq> [] \<and> completion (handleExpandRef1 e target st) \<noteq> Pending"
  then obtain ref1 rest where refs: "referenceImages st = ref1 # rest"
    by (cases "referenceImages st") auto
  then have run: "handleExpandRef1 e target st =
      run_expand (handleExpandRef1_begin target st) (expandImage e ref1 target) handleExpandRef1_settle"
    by (simp add: handleExpandRef1_def)
  then obtain o1 where "final (handleExpandRef1 e target st)
      = fst (handleExpandRef1_settle o1 (handleExpandRef1_begin target st))"
    using a run_expand_settled by metis
  then show "aspectRatio (final (handleExpandRef1 e target st)) = js ''16:9''"
    using expand_settle_ratio by simp
qed

theorem expand_resets_aspect_ratio_witness:
  "aspectRatio (final (handleExpandImage sample_env (js ''data:image/png;base64,AAAA'') 0 (js ''1:1'')
      (initial_state\<lparr>aspectRatio := js ''4:3''\<rparr>))) = js ''16:9'' \<and>
   aspectRatio (final (handleExpandRef1 sample_env (js ''1:1'')
      (initial_state\<lparr>aspectRatio := js ''4:3'', referenceImages := [js ''data:image/png;base64,AAAA'']\<rparr>)))
     = js ''16:9''"
proof -
  have settled1: "completion (handleExpandImage sample_env (js ''data:image/png;base64,AAAA'') 0 (js ''1:1'')
      (initial_state\<lparr>aspectRatio := js ''4:3''\<rparr>)) \<noteq> Pending"
    by (simp add: handleExpandImage_def expandImage_def sample_env_def handler_eval parseDataUrl_def
        handleExpandImage_settle_def js_eval)
  have settled2: "referenceImages (initial_state\<lparr>aspectRatio := js ''4:3'',
        referenceImages := [js ''data:image/png;base64,AAAA'']\<rparr>) \<noteq> [] \<and>
      completion (handleExpandRef1 sample_env (js ''1:1'')
        (initial_state\<lparr>aspectRatio := js ''4:3'', referenceImages := [js ''data:image/png;base64,AAAA'']\<rparr>))
      \<noteq> Pending"
    by (simp add: handleExpandRef1_def expandImage_def sample_env_def handler_eval parseDataUrl_def
        handleExpandRef1_settle_def js_eval)
  from expand_resets_aspect_ratio[of _ _ sample_env "js ''data:image/png;base64,AAAA''" 0 "js ''1:1''"
      "initial_state\<lparr>aspectRatio := js ''4:3''\<rparr>"] settled1
  have "aspectRatio (final (handleExpandImage sample_env (js ''data:image/png;base64,AAAA'') 0 (js ''1:1'')
      (initial_state\<lparr>aspectRatio := js ''4:3''\<rparr>))) = js ''16:9''"
    by blast
  moreover from expand_resets_aspect_ratio[of _ _ sample_env _ _ "js ''1:1''"
      "initial_state\<lparr>aspectRatio := js ''4:3'', referenceImages := [js ''data:image/png;base64,AAAA'']\<rparr>"]
    settled2
  have "aspectRatio (final (handleExpandRef1 sample_env (js ''1:1'')
      (initial_state\<lparr>aspectRatio := js ''4:3'', referenceImages := [js ''data:image/png;base64,AAAA'']\<rparr>)))
     = js ''16:9''"
    by blast
  ultimately show ?thesis by blast
qed

section \<open>Preconditions\<close>

lemma app_preconditions:
  "(trim (prompt st) = [] \<longrightarrow>
      fails_fast (js ''Please enter a prompt.'') st (handleGenerate e count st) \<and>
      fails_fast (js ''Prompt is empty, nothing to enhance.'') st (handleEnhancePrompt e st) \<and>
      fails_fast (js ''Prompt is empty, cannot generate concept.'') st (handleConcept e st)) \<and>
   (referenceImages st = [] \<longrightarrow>
      fails_fast (js ''No reference image available to describe.'') st (handleDescribeRef1 e st) \<and>
      fails_fast (js ''No reference image available to caption.'') st (handleCaptionRef1 e st) \<and>
      fails_fast (js ''No reference image available to process.'') st (handleRemoveTextRef1 e st) \<and>
      fails_fast (js ''No reference image available to expand.'') st (handleExpandRef1 e target st)) \<and>
   (\<not> startsWith (file_type f) (js ''image/'') \<longrightarrow>
      handleUploadReference e f st = st\<lparr>error := Some (js ''Please upload a valid image file.'')\<rparr>)"
  by (simp add: fails_fast_def early_return_def handleGenerate_def handleEnhancePrompt_def
      handleConcept_def handleDescribeRef1_def handleCaptionRef1_def handleRemoveTextRef1_def
      handleExpandRef1_def handleUploadReference_def)

lemma writer_preconditions:
  "trim (story ws) = [] \<longrightarrow>
      writer_fails_fast (js ''Story is empty. Cannot create a caption.'') ws (handleCustomCaption e props ws) \<and>
      writer_fails_fast (js ''Story is empty. Cannot create a caption.'') ws (handleThaiCaption e props ws) \<and>
      writer_fails_fast (js ''Story is empty. Cannot create a caption.'') ws (handleNewThaiCaption e props ws) \<and>
      writer_fails_fast (js ''Story is empty. Nothing to polish.'') ws (handlePolish e props ws) \<and>
      writer_fails_fast (js ''Story is empty. Nothing to translate to '' @ language_name lang @ js ''.'') ws
        (handleTranslate e props lang ws)"
  by (simp add: writer_fails_fast_def writer_early_return_def handleCustomCaption_def
      handleThaiCaption_def handleNewThaiCaption_def handlePolish_def handleTranslate_def)

text \<open>
  Claim C6.  Each handler that guards a backend operation by a precondition: generation,
  enhancement and concept need a prompt that is not blank, the four actions on the first
  reference image need a reference image, and the caption, polish and translate actions of
  the story component need a story that is not blank; an upload needs a file of an image
  type.  When the precondition fails, the
  handler sends no request, and the state it leaves is the state it found with the error
  message set to its own text: no in-flight slot and no other field has changed.
\<close>

theorem precondition_failure_only_sets_error:
  "(trim (prompt st) = [] \<longrightarrow>
      fails_fast (js ''Please enter a prompt.'') st (handleGenerate e count st) \<and>
      fails_fast (js ''Prompt is empty, nothing to enhance.'') st (handleEnhancePrompt e st) \<and>
      fails_fast (js ''Prompt is empty, cannot generate concept.'') st (handleConcept e st)) \<and>
   (referenceImages st = [] \<longrightarrow>
      fails_fast (js ''No reference image available to describe.'') st (handleDescribeRef1 e st) \<and>
      fails_fast (js ''No reference image available to caption.'') st (handleCaptionRef1 e st) \<and>
      fails_fast (js ''No reference image available to process.'') st (handleRemoveTextRef1 e st) \<and>
      fails_fast (js ''No reference image available to expand.'') st (handleExpandRef1 e target st)) \<and>
   (\<not> startsWith (file_type f) (js ''image/'') \<longrightarrow>
      handleUploadReference e f st = st\<lparr>error := Some (js ''Please upload a valid image file.'')\<rparr>) \<and>
   (trim (story ws) = [] \<longrightarrow>
      writer_fails_fast (js ''Story is empty. Cannot create a caption.'') ws (handleCustomCaption e props ws) \<and>
      writer_fails_fast (js ''Story is empty. Cannot create a caption.'') ws (handleThaiCaption e props ws) \<and>
      writer_fails_fast (js ''Story is empty. Cannot create a caption.'') ws (handleNewThaiCaption e props ws) \<and>
      writer_fails_fast (js ''Story is empty. Nothing to polish.'') ws (handlePolish e props ws) \<and>
      writer_fails_fast (js ''Story is empty. Nothing to translate to '' @ language_name lang @ js ''.'') ws
        (handleTranslate e props lang ws))"
  using app_preconditions[of st e count target f] writer_preconditions[of ws e props lang]
  by blast

theorem precondition_failure_only_sets_error_witness:
  "fails_fast (js ''Prompt is empty, nothing to enhance.'') (initial_state\<lparr>prompt := js ''   ''\<rparr>)
     (handleEnhancePrompt sample_env (initial_state\<lparr>prompt := js ''   ''\<rparr>)) \<and>
   fails_fast (js ''No reference image available to describe.'') (initial_state\<lparr>prompt := js ''   ''\<rparr>)
     (handleDescribeRef1 sample_env (initial_state\<lparr>prompt := js ''   ''\<rparr>)) \<and>
   writer_fails_fast (js ''Story is empty. Nothing to polish.'') initial_writer
     (handlePolish sample_env \<lparr>selectedStyle = js ''photorealistic'',
        selectedReasoningModel = js ''gemini-3-flash-preview'', captionLength = 60\<rparr> initial_writer) \<and>
   handleUploadReference sample_env \<lparr>file_type = js ''text/plain'', file_name = js ''notes.txt''\<rparr>
       (initial_state\<lparr>prompt := js ''   ''\<rparr>)
     = initial_state\<lparr>prompt := js ''   '', error := Some (js ''Please upload a valid image file.'')\<rparr> \<and>
   processingAction (final (handleEnhancePrompt sample_env (initial_state\<lparr>prompt := js ''   ''\<rparr>))) = None \<and>
   promptActionLoading (final (handleEnhancePrompt sample_env (initial_state\<lparr>prompt := js ''   ''\<rparr>))) = None"
proof -
  have blank: "trim (prompt (initial_state\<lparr>prompt := js ''   ''\<rparr>)) = []"
    by (simp add: trim_def is_white_space_def js_def)
  have no_refs: "referenceImages (initial_state\<lparr>prompt := js ''   ''\<rparr>) = []"
    by (simp add: initial_state_def)
  have no_story: "trim (story initial_writer) = []"
    by (simp add: trim_def initial_writer_def)
  have no_image: "\<not> startsWith (file_type \<lparr>file_type = js ''text/plain'', file_name = js ''notes.txt''\<rparr>)
      (js ''image/'')"
    by (simp add: js_def)
  note instance1 = precondition_failure_only_sets_error[of "initial_state\<lparr>prompt := js ''   ''\<rparr>" sample_env 1
      "js ''1:1''" "\<lparr>file_type = js ''text/plain'', file_name = js ''notes.txt''\<rparr>" initial_writer "\<lparr>selectedStyle = js ''photorealistic'',
        selectedReasoningModel = js ''gemini-3-flash-preview'', captionLength = 60\<rparr>" English]
  have a: "fails_fast (js ''Prompt is empty, nothing to enhance.'') (initial_state\<lparr>prompt := js ''   ''\<rparr>)
     (handleEnhancePrompt sample_env (initial_state\<lparr>prompt := js ''   ''\<rparr>))"
    using instance1 blank by blast
  have b: "fails_fast (js ''No reference image available to describe.'') (initial_state\<lparr>prompt := js ''   ''\<rparr>)
     (handleDescribeRef1 sample_env (initial_state\<lparr>prompt := js ''   ''\<rparr>))"
    using instance1 no_refs by blast
  have c: "writer_fails_fast (js ''Story is empty. Nothing to polish.'') initial_writer
     (handlePolish sample_env \<lparr>selectedStyle = js ''photorealistic'',
        selectedReasoningModel = js ''gemini-3-flash-preview'', captionLength = 60\<rparr> initial_writer)"
    using instance1 no_story by blast
  have d: "handleUploadReference sample_env \<lparr>file_type = js ''text/plain'', file_name = js ''notes.txt''\<rparr>
       (initial_state\<lparr>prompt := js ''   ''\<rparr>)
     = initial_state\<lparr>prompt := js ''   '', error := Some (js ''Please upload a valid image file.'')\<rparr>"
    using instance1 no_image by blast
  from a have "processingAction (final (handleEnhancePrompt sample_env (initial_state\<lparr>prompt := js ''   ''\<rparr>))) = None"
    and "promptActionLoading (final (handleEnhancePrompt sample_env (initial_state\<lparr>prompt := js ''   ''\<rparr>))) = None"
    by (simp_all add: fails_fast_def initial_state_def)
  with a b c d show ?thesis by blast
qed

section \<open>The error fold\<close>

lemma generate_catch_credential:
  "str_includes m (js ''Requested entity was not found'') \<or> str_includes m (js ''API_KEY_INVALID'') \<Longrightarrow>
   \<not> scrollIntoViewThrows e \<Longrightarrow>
   error (fst (handleGenerate_settle e (Inl (JsError m)) st)) = Some credential_message"
  by (auto simp: handleGenerate_settle_def handleGenerate_catch_def credential_message_def)

lemma generate_catch_other:
  "\<not> str_includes m (js ''Requested entity was not found'') \<Longrightarrow> \<not> str_includes m (js ''API_KEY_INVALID'') \<Longrightarrow>
   error (fst (handleGenerate_settle e (Inl (JsError m)) st)) = Some m"
  by (simp add: handleGenerate_settle_def handleGenerate_catch_def)

lemma handleGenerate_dispatched:
  "trim (prompt st) \<noteq> [] \<Longrightarrow> hasKey e \<or> imageModel st \<noteq> js ''gemini-3-pro-image-preview'' \<or> credential_bootstrap e \<Longrightarrow>
   handleGenerate e count st =
     run_handler (handleGenerate_begin count st st) (handleGenerate_call e count st) (handleGenerate_settle e)"
  by (auto simp: handleGenerate_def)

lemma raw_message_app:
  "error (fst (handleDescribe_settle (Inl (JsError m)) st)) = Some m \<and>
   error (fst (handleCaption_settle imageSrc (Inl (JsError m)) st)) = Some m \<and>
   error (fst (handleRemoveText_settle (Inl (JsError m)) st)) = Some m \<and>
   error (fst (handleExpandImage_settle (Inl (JsError m)) st)) = Some m \<and>
   error (fst (handleDescribeRef1_settle (Inl (JsError m)) st)) = Some m \<and>
   error (fst (handleCaptionRef1_settle ref1 (Inl (JsError m)) st)) = Some m \<and>
   error (fst (handleRemoveTextRef1_settle (Inl (JsError m)) st)) = Some m \<and>
   error (fst (handleExpandRef1_settle (Inl (JsError m)) st)) = Some m \<and>
   error (fst (handleEnhancePrompt_settle (Inl (JsError m)) st)) = Some m \<and>
   error (fst (handleConcept_settle (Inl (JsError m)) st)) = Some m"
  by (simp add: handleDescribe_settle_def handleCaption_settle_def handleRemoveText_settle_def
      handleExpandImage_settle_def handleDescribeRef1_settle_def handleCaptionRef1_settle_def
      handleRemoveTextRef1_settle_def handleExpandRef1_settle_def handleEnhancePrompt_settle_def
      handleConcept_settle_def try_catch_finally_def error_message_def setError_def)

lemma raw_message_writer:
  "writer_error (fst (fst (handleIdea_settle capturedStyle (Inl (JsError m)) w))) = Some m \<and>
   writer_error (fst (fst (handleCustomCaption_settle e (Inl (JsError m)) w))) = Some m \<and>
   writer_error (fst (fst (handleThaiCaption_settle e (Inl (JsError m)) w))) = Some m \<and>
   writer_error (fst (fst (handleNewThaiCaption_settle e (Inl (JsError m)) w))) = Some m \<and>
   writer_error (fst (fst (handlePolish_settle e (Inl (JsError m)) w))) = Some m \<and>
   writer_error (fst (fst (handleTranslate_settle e (Inl (JsError m)) w))) = Some m"
  by (cases w) (simp add: handleIdea_settle_def handleCustomCaption_settle_def handleThaiCaption_settle_def
      handleNewThaiCaption_settle_def handlePolish_settle_def handleTranslate_settle_def
      try_catch_finally_def try_fold_catch_finally_def catch_finally_def error_message_def
      writer_setError_def writer_finally_def)

lemma final_run_expand:
  "fst call = Some outcome \<Longrightarrow> final (run_expand started call settle) = fst (settle outcome started)"
  by (cases call) (simp add: run_expand_def final_run_handler)

lemma promise_all_rejected:
  "fst first = Inl err \<Longrightarrow> fst second = Inl err \<Longrightarrow> fst (promise_all e first second) = Inl err"
  by (cases first; cases second) (simp add: promise_all_def)

lemma generate_raw_credential:
  "(str_includes m (js ''Requested entity was not found'') \<or> str_includes m (js ''API_KEY_INVALID'')) \<and>
      \<not> scrollIntoViewThrows e \<and> trim (prompt st) \<noteq> [] \<and>
      (hasKey e \<or> imageModel st \<noteq> js ''gemini-3-pro-image-preview'' \<or> credential_bootstrap e) \<and>
      fst (handleGenerate_call e count st) = Inl (JsError m) \<longrightarrow>
        error (final (handleGenerate e count st)) = Some credential_message"
proof
  assume a: "(str_includes m (js ''Requested entity was not found'') \<or> str_includes m (js ''API_KEY_INVALID'')) \<and>
      \<not> scrollIntoViewThrows e \<and> trim (prompt st) \<noteq> [] \<and>
      (hasKey e \<or> imageModel st \<noteq> js ''gemini-3-pro-image-preview'' \<or> credential_bootstrap e) \<and>
      fst (handleGenerate_call e count st) = Inl (JsError m)"
  then have "final (handleGenerate e count st)
      = fst (handleGenerate_settle e (Inl (JsError m)) (handleGenerate_begin count st st))"
    using handleGenerate_dispatched[of st e count] by (simp add: final_run_handler)
  then show "error (final (handleGenerate e count st)) = Some credential_message"
    using a generate_catch_credential by simp
qed

lemma describe_raw:
  "fst (describeImage e imageSrc (reasoningModel st)) = Inl (JsError m) \<longrightarrow>
     error (final (handleDescribe e imageSrc index st)) = Some m"
  by (simp add: handleDescribe_def final_run_handler raw_message_app)

lemma caption_raw:
  "fst (suggestCaption e imageSrc (reasoningModel st)) = Inl (JsError m) \<longrightarrow>
     error (final (handleCaption e imageSrc index st)) = Some m"
  by (simp add: handleCaption_def final_run_handler raw_message_app)

lemma remove_text_raw:
  "fst (generateFromImageAndText e remove_text_prompt [imageSrc]) = Inl (JsError m) \<longrightarrow>
     error (final (handleRemoveText e imageSrc index st)) = Some m"
  by (simp add: handleRemoveText_def final_run_handler raw_message_app)

lemma expand_raw:
  "fst (expandImage e imageSrc target) = Some (Inl (JsError m)) \<longrightarrow>
     error (final (handleExpandImage e imageSrc index target st)) = Some m"
  by (simp add: handleExpandImage_def final_run_expand raw_message_app)

lemma describe_ref1_raw:
  "referenceImages st = ref1 # rest \<and> fst (describeImage e ref1 (reasoningModel st)) = Inl (JsError m) \<longrightarrow>
     error (final (handleDescribeRef1 e st)) = Some m"
  by (simp add: handleDescribeRef1_def final_run_handler raw_message_app)

lemma caption_ref1_raw:
  "referenceImages st = ref1 # rest \<and> fst (suggestCaption e ref1 (reasoningModel st)) = Inl (JsError m) \<longrightarrow>
     error (final (handleCaptionRef1 e st)) = Some m"
  by (simp add: handleCaptionRef1_def final_run_handler raw_message_app)

lemma remove_text_ref1_raw:
  "referenceImages st = ref1 # rest \<and>
   fst (generateFromImageAndText e remove_text_prompt [ref1]) = Inl (JsError m) \<longrightarrow>
     error (final (handleRemoveTextRef1 e st)) = Some m"
  by (simp add: handleRemoveTextRef1_def final_run_handler raw_message_app)

lemma expand_ref1_raw:
  "referenceImages st = ref1 # rest \<and> fst (expandImage e ref1 target) = Some (Inl (JsError m)) \<longrightarrow>
     error (final (handleExpandRef1 e target st)) = Some m"
  by (simp add: handleExpandRef1_def final_run_expand raw_message_app)

lemma enhance_raw:
  "trim (prompt st) \<noteq> [] \<and> fst (enhancePrompt e (prompt st) (reasoningModel st)) = Inl (JsError m) \<longrightarrow>
     error (final (handleEnhancePrompt e st)) = Some m"
  by (simp add: handleEnhancePrompt_def final_run_handler raw_message_app)

lemma concept_raw:
  "trim (prompt st) \<noteq> [] \<and> fst (generateConcept e (prompt st) (reasoningModel st)) = Inl (JsError m) \<longrightarrow>
     error (final (handleConcept e st)) = Some m"
  by (simp add: handleConcept_def final_run_handler raw_message_app)

lemma idea_raw:
  "fst (generateNextSentence e (story ws) (language ws) (story_style ws) (selectedReasoningModel props))
     = Inl (JsError m) \<longrightarrow>
     writer_error (writer_final (handleIdea e props ws)) = Some m"
  by (simp add: handleIdea_def writer_final_run_writer raw_message_writer)

lemma custom_caption_raw:
  "trim (story ws) \<noteq> [] \<and>
   fst (generateStoryCaption e (story ws) (selectedReasoningModel props) English) = Inl (JsError m) \<longrightarrow>
     writer_error (writer_final (handleCustomCaption e props ws)) = Some m"
  by (simp add: handleCustomCaption_def writer_final_run_writer raw_message_writer)

lemma thai_caption_raw:
  "trim (story ws) \<noteq> [] \<and>
   fst (generateStoryCaption e (story ws) (selectedReasoningModel props) Thai) = Inl (JsError m) \<longrightarrow>
     writer_error (writer_final (handleThaiCaption e props ws)) = Some m"
  by (simp add: handleThaiCaption_def writer_final_run_writer raw_message_writer)

lemma new_thai_caption_raw:
  "trim (story ws) \<noteq> [] \<and>
   fst (promise_all e (generateStoryCaption e (story ws) (selectedReasoningModel props) Thai)
          (generateDesignFromStory e (story ws) (style_name e (selectedStyle props))
             (selectedReasoningModel props))) = Inl (JsError m) \<longrightarrow>
     writer_error (writer_final (handleNewThaiCaption e props ws)) = Some m"
  by (simp add: handleNewThaiCaption_def writer_final_run_writer raw_message_writer)

lemma polish_raw:
  "trim (story ws) \<noteq> [] \<and> fst (polishStory e (story ws) (selectedReasoningModel props)) = Inl (JsError m) \<longrightarrow>
     writer_error (writer_final (handlePolish e props ws)) = Some m"
  by (simp add: handlePolish_def writer_final_run_writer raw_message_writer)

lemma translate_raw:
  "trim (story ws) \<noteq> [] \<and>
   fst (translateStory e (story ws) lang (selectedReasoningModel props)) = Inl (JsError m) \<longrightarrow>
     writer_error (writer_final (handleTranslate e props lang ws)) = Some m"
  by (simp add: handleTranslate_def writer_final_run_writer raw_message_writer)

text \<open>
  Claim C4, as the code has it.  Only the generation handler classifies the error.  When
  its call is rejected with an \<^verbatim>\<open>Error\<close> whose message contains
  \<^verbatim>\<open>API_KEY_INVALID\<close> or \<^verbatim>\<open>Requested entity was not found\<close>, and the scroll to the top of
  the page does not throw, the error message of the session is the credential message
  (first conjunct: the continuation on any state; second: the whole operation).  Every
  other operation of the two components, when it was dispatched and its backend call is
  rejected with an \<^verbatim>\<open>Error\<close>, ends with the message of that error as the error message,
  whatever the message contains (one conjunct for each whole operation, then the same of
  each continuation on any state).
\<close>

theorem credential_error_fold:
  "((str_includes m (js ''Requested entity was not found'') \<or> str_includes m (js ''API_KEY_INVALID'')) \<and>
      \<not> scrollIntoViewThrows e \<longrightarrow>
        error (fst (handleGenerate_settle e (Inl (JsError m)) st)) = Some credential_message) \<and>
   ((str_includes m (js ''Requested entity was not found'') \<or> str_includes m (js ''API_KEY_INVALID'')) \<and>
      \<not> scrollIntoViewThrows e \<and> trim (prompt st) \<noteq> [] \<and>
      (hasKey e \<or> imageModel st \<noteq> js ''gemini-3-pro-image-preview'' \<or> credential_bootstrap e) \<and>
      fst (handleGenerate_call e count st) = Inl (JsError m) \<longrightarrow>
        error (final (handleGenerate e count st)) = Some credential_message) \<and>
   (fst (describeImage e imageSrc (reasoningModel st)) = Inl (JsError m) \<longrightarrow>
      error (final (handleDescribe e imageSrc index st)) = Some m) \<and>
   (fst (suggestCaption e imageSrc (reasoningModel st)) = Inl (JsError m) \<longrightarrow>
      error (final (handleCaption e imageSrc index st)) = Some m) \<and>
   (fst (generateFromImageAndText e remove_text_prompt [imageSrc]) = Inl (JsError m) \<longrightarrow>
      error (final (handleRemoveText e imageSrc index st)) = Some m) \<and>
   (fst (expandImage e imageSrc target) = Some (Inl (JsError m)) \<longrightarrow>
      error (final (handleExpandImage e imageSrc index target st)) = Some m) \<and>
   (referenceImages st = ref1 # rest \<and> fst (describeImage e ref1 (reasoningModel st)) = Inl (JsError m) \<longrightarrow>
      error (final (handleDescribeRef1 e st)) = Some m) \<and>
   (referenceImages st = ref1 # rest \<and> fst (suggestCaption e ref1 (reasoningModel st)) = Inl (JsError m) \<longrightarrow>
      error (final (handleCaptionRef1 e st)) = Some m) \<and>
   (referenceImages st = ref1 # rest \<and>
    fst (generateFromImageAndText e remove_text_prompt [ref1]) = Inl (JsError m) \<longrightarrow>
      error (final (handleRemoveTextRef1 e st)) = Some m) \<and>
   (referenceImages st = ref1 # rest \<and> fst (expandImage e ref1 target) = Some (Inl (JsError m)) \<longrightarrow>
      error (final (handleExpandRef1 e target st)) = Some m) \<and>
   (trim (prompt st) \<noteq> [] \<and> fst (enhancePrompt e (prompt st) (reasoningModel st)) = Inl (JsError m) \<longrightarrow>
      error (final (handleEnhancePrompt e st)) = Some m) \<and>
   (trim (prompt st) \<noteq> [] \<and> fst (generateConcept e (prompt st) (reasoningModel st)) = Inl (JsError m) \<longrightarrow>
      error (final (handleConcept e st)) = Some m) \<and>
   (fst (generateNextSentence e (story ws) (language ws) (story_style ws) (selectedReasoningModel props))
      = Inl (JsError m) \<longrightarrow>
      writer_error (writer_final (handleIdea e props ws)) = Some m) \<and>
   (trim (story ws) \<noteq> [] \<and>
    fst (generateStoryCaption e (story ws) (selectedReasoningModel props) English) = Inl (JsError m) \<longrightarrow>
      writer_error (writer_final (handleCustomCaption e props ws)) = Some m) \<and>
   (trim (story ws) \<noteq> [] \<and>
    fst (generateStoryCaption e (story ws) (selectedReasoningModel props) Thai) = Inl (JsError m) \<longrightarrow>
      writer_error (writer_final (handleThaiCaption e props ws)) = Some m) \<and>
   (trim (story ws) \<noteq> [] \<and>
    fst (promise_all e (generateStoryCaption e (story ws) (selectedReasoningModel props) Thai)
           (generateDesignFromStory e (story ws) (style_name e (selectedStyle props))
              (selectedReasoningModel props))) = Inl (JsError m) \<longrightarrow>
      writer_error (writer_final (handleNewThaiCaption e props ws)) = Some m) \<and>
   (trim (story ws) \<noteq> [] \<and> fst (polishStory e (story ws) (selectedReasoningModel props)) = Inl (JsError m) \<longrightarrow>
      writer_error (writer_final (handlePolish e props ws)) = Some m) \<and>
   (trim (story ws) \<noteq> [] \<and>
    fst (translateStory e (story ws) lang (selectedReasoningModel props)) = Inl (JsError m) \<longrightarrow>
      writer_error (writer_final (handleTranslate e props lang ws)) = Some m) \<and>
   (error (fst (handleDescribe_settle (Inl (JsError m)) st)) = Some m \<and>
    error (fst (handleCaption_settle imageSrc (Inl (JsError m)) st)) = Some m \<and>
    error (fst (handleRemoveText_settle (Inl (JsError m)) st)) = Some m \<and>
    error (fst (handleExpandImage_settle (Inl (JsError m)) st)) = Some m \<and>
    error (fst (handleDescribeRef1_settle (Inl (JsError m)) st)) = Some m \<and>
    error (fst (handleCaptionRef1_settle ref1 (Inl (JsError m)) st)) = Some m \<and>
    error (fst (handleRemoveTextRef1_settle (Inl (JsError m)) st)) = Some m \<and>
    error (fst (handleExpandRef1_settle (Inl (JsError m)) st)) = Some m \<and>
    error (fst (handleEnhancePrompt_settle (Inl (JsError m)) st)) = Some m \<and>
    error (fst (handleConcept_settle (Inl (JsError m)) st)) = Some m) \<and>
   (writer_error (fst (fst (handleIdea_settle capturedStyle (Inl (JsError m)) w))) = Some m \<and>
    writer_error (fst (fst (handleCustomCaption_settle e (Inl (JsError m)) w))) = Some m \<and>
    writer_error (fst (fst (handleThaiCaption_settle e (Inl (JsError m)) w))) = Some m \<and>
    writer_error (fst (fst (handleNewThaiCaption_settle e (Inl (JsError m)) w))) = Some m \<and>
    writer_error (fst (fst (handlePolish_settle e (Inl (JsError m)) w))) = Some m \<and>
    writer_error (fst (fst (handleTranslate_settle e (Inl (JsError m)) w))) = Some m)"
proof (intro conjI)
  show "(str_includes m (js ''Requested entity was not found'') \<or> str_includes m (js ''API_KEY_INVALID'')) \<and>
      \<not> scrollIntoViewThrows e \<longrightarrow>
        error (fst (handleGenerate_settle e (Inl (JsError m)) st)) = Some credential_message"
    using generate_catch_credential by blast
qed (rule generate_raw_credential describe_raw caption_raw remove_text_raw expand_raw describe_ref1_raw
      caption_ref1_raw remove_text_ref1_raw expand_ref1_raw enhance_raw concept_raw idea_raw
      custom_caption_raw thai_caption_raw new_thai_caption_raw polish_raw translate_raw
    | simp only: raw_message_app raw_message_writer)+

theorem credential_error_fold_witness:
  "error (final (handleGenerate (rejecting_env (js ''[400] API_KEY_INVALID'')) 1
      (initial_state\<lparr>prompt := js ''a red fox in snow''\<rparr>))) = Some credential_message \<and>
   error (final (handleGenerate (rejecting_env (js ''[400] API_KEY_INVALID'')) 1
      (initial_state\<lparr>prompt := js ''a red fox in snow'',
         referenceImages := [js ''data:image/png;base64,AAAA'']\<rparr>))) = Some credential_message \<and>
   error (final (handleDescribe (rejecting_env (js ''[400] API_KEY_INVALID'')) (js ''data:image/png;base64,AAAA'') 0
      (initial_state\<lparr>prompt := js ''a red fox in snow'',
         referenceImages := [js ''data:image/png;base64,AAAA'']\<rparr>))) = Some (js ''[400] API_KEY_INVALID'') \<and>
   error (final (handleCaption (rejecting_env (js ''[400] API_KEY_INVALID'')) (js ''data:image/png;base64,AAAA'') 0
      (initial_state\<lparr>prompt := js ''a red fox in snow'',
         referenceImages := [js ''data:image/png;base64,AAAA'']\<rparr>))) = Some (js ''[400] API_KEY_INVALID'') \<and>
   error (final (handleRemoveText (rejecting_env (js ''[400] API_KEY_INVALID'')) (js ''data:image/png;base64,AAAA'')
      0 (initial_state\<lparr>prompt := js ''a red fox in snow'',
         referenceImages := [js ''data:image/png;base64,AAAA'']\<rparr>))) = Some (js ''[400] API_KEY_INVALID'') \<and>
   error (final (handleExpandImage (rejecting_env (js ''[400] API_KEY_INVALID'')) (js ''data:image/png;base64,AAAA'')
      0 (js ''1:1'') (initial_state\<lparr>prompt := js ''a red fox in snow'',
         referenceImages := [js ''data:image/png;base64,AAAA'']\<rparr>))) = Some (js ''[400] API_KEY_INVALID'') \<and>
   error (final (handleDescribeRef1 (rejecting_env (js ''[400] API_KEY_INVALID''))
      (initial_state\<lparr>prompt := js ''a red fox in snow'',
         referenceImages := [js ''data:image/png;base64,AAAA'']\<rparr>))) = Some (js ''[400] API_KEY_INVALID'') \<and>
   error (final (handleCaptionRef1 (rejecting_env (js ''[400] API_KEY_INVALID''))
      (initial_state\<lparr>prompt := js ''a red fox in snow'',
         referenceImages := [js ''data:image/png;base64,AAAA'']\<rparr>))) = Some (js ''[400] API_KEY_INVALID'') \<and>
   error (final (handleRemoveTextRef1 (rejecting_env (js ''[400] API_KEY_INVALID''))
      (initial_state\<lparr>prompt := js ''a red fox in snow'',
         referenceImages := [js ''data:image/png;base64,AAAA'']\<rparr>))) = Some (js ''[400] API_KEY_INVALID'') \<and>
   error (final (handleExpandRef1 (rejecting_env (js ''[400] API_KEY_INVALID'')) (js ''1:1'')
      (initial_state\<lparr>prompt := js ''a red fox in snow'',
         referenceImages := [js ''data:image/png;base64,AAAA'']\<rparr>))) = Some (js ''[400] API_KEY_INVALID'') \<and>
   error (final (handleEnhancePrompt (rejecting_env (js ''[400] API_KEY_INVALID''))
      (initial_state\<lparr>prompt := js ''a red fox in snow'',
         referenceImages := [js ''data:image/png;base64,AAAA'']\<rparr>))) = Some (js ''[400] API_KEY_INVALID'') \<and>
   error (final (handleConcept (rejecting_env (js ''[400] API_KEY_INVALID''))
      (initial_state\<lparr>prompt := js ''a red fox in snow'',
         referenceImages := [js ''data:image/png;base64,AAAA'']\<rparr>))) = Some (js ''[400] API_KEY_INVALID'') \<and>
   writer_error (writer_final (handleIdea (rejecting_env (js ''[400] API_KEY_INVALID''))
      \<lparr>selectedStyle = js ''photorealistic'', selectedReasoningModel = js ''gemini-3-flash-preview'',
       captionLength = 60\<rparr> (initial_writer\<lparr>story := js ''Once''\<rparr>))) = Some (js ''[400] API_KEY_INVALID'') \<and>
   writer_error (writer_final (handleCustomCaption (rejecting_env (js ''[400] API_KEY_INVALID''))
      \<lparr>selectedStyle = js ''photorealistic'', selectedReasoningModel = js ''gemini-3-flash-preview'',
       captionLength = 60\<rparr> (initial_writer\<lparr>story := js ''Once''\<rparr>))) = Some (js ''[400] API_KEY_INVALID'') \<and>
   writer_error (writer_final (handleThaiCaption (rejecting_env (js ''[400] API_KEY_INVALID''))
      \<lparr>selectedStyle = js ''photorealistic'', selectedReasoningModel = js ''gemini-3-flash-preview'',
       captionLength = 60\<rparr> (initial_writer\<lparr>story := js ''Once''\<rparr>))) = Some (js ''[400] API_KEY_INVALID'') \<and>
   writer_error (writer_final (handleNewThaiCaption (rejecting_env (js ''[400] API_KEY_INVALID''))
      \<lparr>selectedStyle = js ''photorealistic'', selectedReasoningModel = js ''gemini-3-flash-preview'',
       captionLength = 60\<rparr> (initial_writer\<lparr>story := js ''Once''\<rparr>))) = Some (js ''[400] API_KEY_INVALID'') \<and>
   writer_error (writer_final (handlePolish (rejecting_env (js ''[400] API_KEY_INVALID''))
      \<lparr>selectedStyle = js ''photorealistic'', selectedReasoningModel = js ''gemini-3-flash-preview'',
       captionLength = 60\<rparr> (initial_writer\<lparr>story := js ''Once''\<rparr>))) = Some (js ''[400] API_KEY_INVALID'') \<and>
   writer_error (writer_final (handleTranslate (rejecting_env (js ''[400] API_KEY_INVALID''))
      \<lparr>selectedStyle = js ''photorealistic'', selectedReasoningModel = js ''gemini-3-flash-preview'',
       captionLength = 60\<rparr> Thai (initial_writer\<lparr>story := js ''Once''\<rparr>))) = Some (js ''[400] API_KEY_INVALID'')"
proof -
  let ?m = "js ''[400] API_KEY_INVALID''"
  let ?e = "rejecting_env ?m"
  let ?img = "js ''data:image/png;base64,AAAA''"
  let ?plain = "initial_state\<lparr>prompt := js ''a red fox in snow''\<rparr>"
  let ?st = "initial_state\<lparr>prompt := js ''a red fox in snow'', referenceImages := [?img]\<rparr>"
  let ?ws = "initial_writer\<lparr>story := js ''Once''\<rparr>"
  let ?props = "\<lparr>selectedStyle = js ''photorealistic'', selectedReasoningModel = js ''gemini-3-flash-preview'',
       captionLength = 60\<rparr>"
  have text_generation: "(str_includes ?m (js ''Requested entity was not found'') \<or> str_includes ?m (js ''API_KEY_INVALID'')) \<and>
      \<not> scrollIntoViewThrows ?e \<and> trim (prompt ?plain) \<noteq> [] \<and>
      (hasKey ?e \<or> imageModel ?plain \<noteq> js ''gemini-3-pro-image-preview'' \<or> credential_bootstrap ?e) \<and>
      fst (handleGenerate_call ?e 1 ?plain) = Inl (JsError ?m)"
    by (simp add: state_eval hasKey_def truthy_def trim_def is_white_space_def handleGenerate_call_def
        generateFromText_def effectiveCount_def isGeminiModel_def handler_eval js_def)
  have image_generation: "(str_includes ?m (js ''Requested entity was not found'') \<or> str_includes ?m (js ''API_KEY_INVALID'')) \<and>
      \<not> scrollIntoViewThrows ?e \<and> trim (prompt ?st) \<noteq> [] \<and>
      (hasKey ?e \<or> imageModel ?st \<noteq> js ''gemini-3-pro-image-preview'' \<or> credential_bootstrap ?e) \<and>
      fst (handleGenerate_call ?e 1 ?st) = Inl (JsError ?m)"
    by (simp add: state_eval hasKey_def truthy_def trim_def is_white_space_def handleGenerate_call_def
        generateFromImageAndText_def handler_eval parseDataUrl_def js_eval)
  have prompt_given: "trim (prompt ?st) \<noteq> []"
    using image_generation by blast
  have refs: "referenceImages ?st = ?img # []"
    by simp
  have story_given: "trim (story ?ws) \<noteq> []"
    by (simp add: trim_def is_white_space_def js_def)
  have describe: "fst (describeImage ?e ?img (reasoningModel ?st)) = Inl (JsError ?m)"
    by (simp add: describeImage_def state_eval handler_eval parseDataUrl_def js_eval)
  have caption: "fst (suggestCaption ?e ?img (reasoningModel ?st)) = Inl (JsError ?m)"
    by (simp add: suggestCaption_def state_eval handler_eval parseDataUrl_def js_eval)
  have remove_text: "fst (generateFromImageAndText ?e remove_text_prompt [?img]) = Inl (JsError ?m)"
    by (simp add: generateFromImageAndText_def state_eval handler_eval parseDataUrl_def js_eval)
  have expand: "fst (expandImage ?e ?img (js ''1:1'')) = Some (Inl (JsError ?m))"
    by (simp add: expandImage_def state_eval handler_eval parseDataUrl_def js_eval)
  have enhance: "fst (enhancePrompt ?e (prompt ?st) (reasoningModel ?st)) = Inl (JsError ?m)"
    by (simp add: enhancePrompt_def state_eval handler_eval)
  have concept: "fst (generateConcept ?e (prompt ?st) (reasoningModel ?st)) = Inl (JsError ?m)"
    by (simp add: generateConcept_def state_eval handler_eval)
  have idea: "fst (generateNextSentence ?e (story ?ws) (language ?ws) (story_style ?ws)
      (selectedReasoningModel ?props)) = Inl (JsError ?m)"
    by (simp add: generateNextSentence_def state_eval handler_eval)
  have english: "fst (generateStoryCaption ?e (story ?ws) (selectedReasoningModel ?props) English)
      = Inl (JsError ?m)"
    by (simp add: generateStoryCaption_def state_eval handler_eval)
  have thai: "fst (generateStoryCaption ?e (story ?ws) (selectedReasoningModel ?props) Thai) = Inl (JsError ?m)"
    by (simp add: generateStoryCaption_def state_eval handler_eval)
  have design: "fst (generateDesignFromStory ?e (story ?ws) (style_name ?e (selectedStyle ?props))
      (selectedReasoningModel ?props)) = Inl (JsError ?m)"
    by (simp add: generateDesignFromStory_def state_eval handler_eval)
  have both: "fst (promise_all ?e (generateStoryCaption ?e (story ?ws) (selectedReasoningModel ?props) Thai)
      (generateDesignFromStory ?e (story ?ws) (style_name ?e (selectedStyle ?props))
         (selectedReasoningModel ?props))) = Inl (JsError ?m)"
    using thai design by (rule promise_all_rejected)
  have polish: "fst (polishStory ?e (story ?ws) (selectedReasoningModel ?props)) = Inl (JsError ?m)"
    by (simp add: polishStory_def state_eval handler_eval)
  have translate: "fst (translateStory ?e (story ?ws) Thai (selectedReasoningModel ?props)) = Inl (JsError ?m)"
    by (simp add: translateStory_def state_eval handler_eval)
  note instance0 = credential_error_fold[where m = "?m" and e = "?e" and st = "?plain" and count = 1]
  note instance1 = credential_error_fold[where m = "?m" and e = "?e" and st = "?st" and count = 1
      and imageSrc = "?img" and index = 0 and target = "js ''1:1''" and ?ref1.0 = "?img" and rest = "[]"
      and ws = "?ws" and props = "?props" and lang = Thai]
  have "error (final (handleGenerate ?e 1 ?plain)) = Some credential_message"
    using instance0 text_generation by blast
  then show ?thesis
    using instance1 image_generation prompt_given refs story_given describe caption remove_text expand
      enhance concept idea english thai both polish translate
    by (simp only: simp_thms)
qed

text \<open>
  The claim as stated covers every operation.  Here the backend rejects a describe request
  with a message that contains \<^verbatim>\<open>API_KEY_INVALID\<close>, and the error message of the session is
  that raw text.
\<close>

theorem describe_raw_error_counterexample:
  "str_includes (js ''[400] API_KEY_INVALID'') (js ''API_KEY_INVALID'') \<and>
   error (final (handleDescribe (rejecting_env (js ''[400] API_KEY_INVALID''))
      (js ''data:image/png;base64,AAAA'') 0 initial_state)) = Some (js ''[400] API_KEY_INVALID'') \<and>
   js ''[400] API_KEY_INVALID'' \<noteq> credential_message"
  by (simp add: handleDescribe_def describeImage_def handleDescribe_begin_def handleDescribe_settle_def
      state_eval handler_eval parseDataUrl_def credential_message_def js_eval)

section \<open>The caption prompt\<close>

lemma js_append: "js (a @ b) = js a @ js b"
  by (simp add: js_def)

lemma caption_prompt_thai:
  "\<exists>c\<in>set caption. 0x0E01 \<le> c \<and> c \<le> 0x0E2E \<Longrightarrow> caption_prompt caption = thai_wording caption"
  by (simp add: caption_prompt_def thai_wording_def list_ex_iff js_def)

lemma caption_prompt_generic:
  "\<not> (\<exists>c\<in>set caption. 0x0E01 \<le> c \<and> c \<le> 0x0E2E) \<Longrightarrow> caption_prompt caption = generic_wording caption"
  by (simp add: caption_prompt_def generic_wording_def list_ex_iff js_def)

lemma caption_settle_prompt:
  "prompt (fst (handleCaption_settle imageSrc (Inr caption) st)) = caption_prompt caption \<and>
   prompt (fst (handleCaptionRef1_settle ref1 (Inr caption) st)) = caption_prompt caption"
  by (simp add: handleCaption_settle_def handleCaptionRef1_settle_def try_catch_finally_def)

lemma caption_answer:
  "fst (suggestCaption e imageSrc (reasoningModel st)) = Inr caption \<Longrightarrow>
     prompt (final (handleCaption e imageSrc index st)) = caption_prompt caption"
  by (simp add: handleCaption_def final_run_handler caption_settle_prompt)

lemma caption_ref1_answer:
  "referenceImages st = ref1 # rest \<Longrightarrow> fst (suggestCaption e ref1 (reasoningModel st)) = Inr caption \<Longrightarrow>
     prompt (final (handleCaptionRef1 e st)) = caption_prompt caption"
  by (simp add: handleCaptionRef1_def final_run_handler caption_settle_prompt)

text \<open>
  Claim C8, as the code has it.  The caption that the gateway returns is tested for a
  character in the range of the regular expression, U+0E01 to U+0E2E (the Thai consonants),
  not for a character of the Thai block.  When there is one, the prompt that both caption
  handlers store is the template with the words \<^verbatim>\<open>Thai text\<close>, which asks for the exact
  characters without translation; when there is none, it is the same template with the
  word \<^verbatim>\<open>text\<close>, also when the caption holds Thai vowels, tone marks or digits.  Both
  templates are written out in \<open>thai_wording\<close> and \<open>generic_wording\<close>.  The first two
  conjuncts are about the continuations on any state, the other four about the whole
  operations whose call answers with the caption.
\<close>

theorem caption_prompt_wording:
  "((\<exists>c\<in>set caption. 0x0E01 \<le> c \<and> c \<le> 0x0E2E) \<longrightarrow>
      prompt (fst (handleCaption_settle imageSrc (Inr caption) st)) = thai_wording caption \<and>
      prompt (fst (handleCaptionRef1_settle ref1 (Inr caption) st)) = thai_wording caption) \<and>
   (\<not> (\<exists>c\<in>set caption. 0x0E01 \<le> c \<and> c \<le> 0x0E2E) \<longrightarrow>
      prompt (fst (handleCaption_settle imageSrc (Inr caption) st)) = generic_wording caption \<and>
      prompt (fst (handleCaptionRef1_settle ref1 (Inr caption) st)) = generic_wording caption) \<and>
   (fst (suggestCaption e imageSrc (reasoningModel st)) = Inr caption \<and>
    (\<exists>c\<in>set caption. 0x0E01 \<le> c \<and> c \<le> 0x0E2E) \<longrightarrow>
      prompt (final (handleCaption e imageSrc index st)) = thai_wording caption) \<and>
   (fst (suggestCaption e imageSrc (reasoningModel st)) = Inr caption \<and>
    \<not> (\<exists>c\<in>set caption. 0x0E01 \<le> c \<and> c \<le> 0x0E2E) \<longrightarrow>
      prompt (final (handleCaption e imageSrc index st)) = generic_wording caption) \<and>
   (referenceImages st = ref1 # rest \<and> fst (suggestCaption e ref1 (reasoningModel st)) = Inr caption \<and>
    (\<exists>c\<in>set caption. 0x0E01 \<le> c \<and> c \<le> 0x0E2E) \<longrightarrow>
      prompt (final (handleCaptionRef1 e st)) = thai_wording caption) \<and>
   (referenceImages st = ref1 # rest \<and> fst (suggestCaption e ref1 (reasoningModel st)) = Inr caption \<and>
    \<not> (\<exists>c\<in>set caption. 0x0E01 \<le> c \<and> c \<le> 0x0E2E) \<longrightarrow>
      prompt (final (handleCaptionRef1 e st)) = generic_wording caption)"
  using caption_prompt_thai[of caption] caption_prompt_generic[of caption]
    caption_settle_prompt[of imageSrc caption st ref1]
    caption_answer[of e imageSrc st caption index] caption_ref1_answer[of st ref1 rest e caption]
  by auto

text \<open>
  The two examples of the claim, \<^verbatim>\<open>U+0E2A U+0E27 U+0E31 U+0E2A U+0E14 U+0E35\<close> and
  \<^verbatim>\<open>Hello world\<close>, as the answer of the backend to a caption request on a result image and
  on the first reference image.
\<close>

theorem caption_prompt_wording_witness:
  "prompt (fst (handleCaption_settle (js ''data:image/png;base64,AAAA'')
      (Inr [0x0E2A, 0x0E27, 0x0E31, 0x0E2A, 0x0E14, 0x0E35]) initial_state))
     = thai_wording [0x0E2A, 0x0E27, 0x0E31, 0x0E2A, 0x0E14, 0x0E35] \<and>
   prompt (fst (handleCaption_settle (js ''data:image/png;base64,AAAA'') (Inr (js ''Hello world'')) initial_state))
     = generic_wording (js ''Hello world'') \<and>
   prompt (final (handleCaption (answering_env [0x0E2A, 0x0E27, 0x0E31, 0x0E2A, 0x0E14, 0x0E35])
      (js ''data:image/png;base64,AAAA'') 0 (initial_state\<lparr>referenceImages := [js ''data:image/png;base64,BBBB'']\<rparr>)))
     = thai_wording [0x0E2A, 0x0E27, 0x0E31, 0x0E2A, 0x0E14, 0x0E35] \<and>
   prompt (final (handleCaption (answering_env (js ''Hello world''))
      (js ''data:image/png;base64,AAAA'') 0 (initial_state\<lparr>referenceImages := [js ''data:image/png;base64,BBBB'']\<rparr>)))
     = generic_wording (js ''Hello world'') \<and>
   prompt (final (handleCaptionRef1 (answering_env [0x0E2A, 0x0E27, 0x0E31, 0x0E2A, 0x0E14, 0x0E35])
      (initial_state\<lparr>referenceImages := [js ''data:image/png;base64,BBBB'']\<rparr>)))
     = thai_wording [0x0E2A, 0x0E27, 0x0E31, 0x0E2A, 0x0E14, 0x0E35] \<and>
   prompt (final (handleCaptionRef1 (answering_env (js ''Hello world''))
      (initial_state\<lparr>referenceImages := [js ''data:image/png;base64,BBBB'']\<rparr>)))
     = generic_wording (js ''Hello world'') \<and>
   str_includes (thai_wording [0x0E2A, 0x0E27, 0x0E31, 0x0E2A, 0x0E14, 0x0E35]) (js ''the following Thai text as a caption'') \<and>
   str_includes (generic_wording (js ''Hello world'')) (js ''the following text as a caption'')"
proof -
  let ?sawasdee = "[0x0E2A, 0x0E27, 0x0E31, 0x0E2A, 0x0E14, 0x0E35] :: jsstring"
  let ?hello = "js ''Hello world''"
  let ?img = "js ''data:image/png;base64,AAAA''"
  let ?ref = "js ''data:image/png;base64,BBBB''"
  let ?st = "initial_state\<lparr>referenceImages := [?ref]\<rparr>"
  have thai: "\<exists>c\<in>set ?sawasdee. 0x0E01 \<le> c \<and> c \<le> 0x0E2E"
    by simp
  have plain: "\<not> (\<exists>c\<in>set ?hello. 0x0E01 \<le> c \<and> c \<le> 0x0E2E)"
    by (simp add: js_def)
  have refs: "referenceImages ?st = ?ref # []"
    by simp
  have answer_thai: "fst (suggestCaption (answering_env ?sawasdee) ?img (reasoningModel ?st)) = Inr ?sawasdee"
    by (simp add: suggestCaption_def answering_env_def state_eval handler_eval parseDataUrl_def
        strip_quotes_def js_eval)
  have answer_plain: "fst (suggestCaption (answering_env ?hello) ?img (reasoningModel ?st)) = Inr ?hello"
    by (simp add: suggestCaption_def answering_env_def state_eval handler_eval parseDataUrl_def
        strip_quotes_def js_eval)
  have answer_ref_thai: "fst (suggestCaption (answering_env ?sawasdee) ?ref (reasoningModel ?st)) = Inr ?sawasdee"
    by (simp add: suggestCaption_def answering_env_def state_eval handler_eval parseDataUrl_def
        strip_quotes_def js_eval)
  have answer_ref_plain: "fst (suggestCaption (answering_env ?hello) ?ref (reasoningModel ?st)) = Inr ?hello"
    by (simp add: suggestCaption_def answering_env_def state_eval handler_eval parseDataUrl_def
        strip_quotes_def js_eval)
  note thai_instance = caption_prompt_wording[where caption = "?sawasdee" and e = "answering_env ?sawasdee"
      and imageSrc = "?img" and index = 0 and st = "?st" and ?ref1.0 = "?ref" and rest = "[]"]
  note plain_instance = caption_prompt_wording[where caption = "?hello" and e = "answering_env ?hello"
      and imageSrc = "?img" and index = 0 and st = "?st" and ?ref1.0 = "?ref" and rest = "[]"]
  have a: "prompt (fst (handleCaption_settle ?img (Inr ?sawasdee) initial_state)) = thai_wording ?sawasdee"
    using caption_prompt_wording[where caption = "?sawasdee" and imageSrc = "?img" and st = initial_state] thai
    by blast
  have b: "prompt (fst (handleCaption_settle ?img (Inr ?hello) initial_state)) = generic_wording ?hello"
    using caption_prompt_wording[where caption = "?hello" and imageSrc = "?img" and st = initial_state] plain
    by blast
  have c: "prompt (final (handleCaption (answering_env ?sawasdee) ?img 0 ?st)) = thai_wording ?sawasdee"
    using thai_instance thai answer_thai by blast
  have d: "prompt (final (handleCaption (answering_env ?hello) ?img 0 ?st)) = generic_wording ?hello"
    using plain_instance plain answer_plain by blast
  have e: "prompt (final (handleCaptionRef1 (answering_env ?sawasdee) ?st)) = thai_wording ?sawasdee"
    using thai_instance thai refs answer_ref_thai by blast
  have f: "prompt (final (handleCaptionRef1 (answering_env ?hello) ?st)) = generic_wording ?hello"
    using plain_instance plain refs answer_ref_plain by blast
  have g: "str_includes (thai_wording ?sawasdee) (js ''the following Thai text as a caption'')"
    by (simp add: thai_wording_def js_eval)
  have h: "str_includes (generic_wording ?hello) (js ''the following text as a caption'')"
    by (simp add: generic_wording_def js_eval)
  from a b c d e f g h show ?thesis by blast
qed

text \<open>
  The claim as stated tests for Thai-range characters.  The caption \<^verbatim>\<open>U+0E52 U+0E55 U+0E56 U+0E57\<close>
  (the Thai digits of 2567) is made of characters of the Thai block only, none of them in
  the range of the regular expression: the prompt stored is the generic wording, which is
  not the Thai wording.
\<close>

theorem thai_digits_generic_counterexample:
  "(thai_block 0x0E52 \<and> thai_block 0x0E55 \<and> thai_block 0x0E56 \<and> thai_block 0x0E57) \<and>
   prompt (final (handleCaption (answering_env [0x0E52, 0x0E55, 0x0E56, 0x0E57])
      (js ''data:image/png;base64,AAAA'') 0 initial_state))
     = generic_wording [0x0E52, 0x0E55, 0x0E56, 0x0E57] \<and>
   prompt (final (handleCaptionRef1 (answering_env [0x0E52, 0x0E55, 0x0E56, 0x0E57])
      (initial_state\<lparr>referenceImages := [js ''data:image/png;base64,AAAA'']\<rparr>)))
     = generic_wording [0x0E52, 0x0E55, 0x0E56, 0x0E57] \<and>
   generic_wording [0x0E52, 0x0E55, 0x0E56, 0x0E57] \<noteq> thai_wording [0x0E52, 0x0E55, 0x0E56, 0x0E57]"
proof -
  let ?digits = "[0x0E52, 0x0E55, 0x0E56, 0x0E57] :: jsstring"
  let ?img = "js ''data:image/png;base64,AAAA''"
  have block: "thai_block 0x0E52 \<and> thai_block 0x0E55 \<and> thai_block 0x0E56 \<and> thai_block 0x0E57"
    by (simp add: thai_block_def)
  have answer: "fst (suggestCaption (answering_env ?digits) ?img (js ''gemini-3-flash-preview'')) = Inr ?digits"
    by (simp add: suggestCaption_def answering_env_def state_eval handler_eval parseDataUrl_def
        strip_quotes_def js_eval)
  have generic: "caption_prompt ?digits = generic_wording ?digits"
    by (rule caption_prompt_generic) simp
  have card: "prompt (final (handleCaption (answering_env ?digits) ?img 0 initial_state)) = generic_wording ?digits"
    using answer generic by (simp add: caption_answer initial_state_def)
  have ref: "prompt (final (handleCaptionRef1 (answering_env ?digits) (initial_state\<lparr>referenceImages := [?img]\<rparr>)))
      = generic_wording ?digits"
    using answer generic caption_ref1_answer[of "initial_state\<lparr>referenceImages := [?img]\<rparr>" ?img "[]"
        "answering_env ?digits" ?digits]
    by (simp add: initial_state_def)
  have differ: "generic_wording ?digits \<noteq> thai_wording ?digits"
    by (simp add: generic_wording_def thai_wording_def js_def)
  from block card ref differ show ?thesis by blast
qed

section \<open>The caption length\<close>

lemma caption_requests_ignore_length:
  "requests (handleCaption e imageSrc index (st\<lparr>maxCaptionLength := n\<rparr>)) = requests (handleCaption e imageSrc index st) \<and>
   requests (handleCaptionRef1 e (st\<lparr>maxCaptionLength := n\<rparr>)) = requests (handleCaptionRef1 e st) \<and>
   writer_requests (handleCustomCaption e (props\<lparr>captionLength := n\<rparr>) ws)
     = writer_requests (handleCustomCaption e props ws) \<and>
   writer_requests (handleThaiCaption e (props\<lparr>captionLength := n\<rparr>) ws)
     = writer_requests (handleThaiCaption e props ws) \<and>
   writer_requests (handleNewThaiCaption e (props\<lparr>captionLength := n\<rparr>) ws)
     = writer_requests (handleNewThaiCaption e props ws)"
  by (simp add: handleCaption_def handleCaptionRef1_def requests_run_handler early_return_def
      handleCustomCaption_def handleThaiCaption_def handleNewThaiCaption_def run_writer_def
      writer_early_return_def split: list.splits prod.splits)

text \<open>
  Claim C3 on the code.  With the maximum caption length set to 100, the story caption is
  asked for with the instruction \<^verbatim>\<open>Max 60 chars.\<close>, and the image caption with an
  instruction that names no length: neither text contains \<^verbatim>\<open>100\<close>.
\<close>

theorem caption_length_not_in_instruction:
  "writer_requests (handleCustomCaption sample_env
      \<lparr>selectedStyle = js ''photorealistic'', selectedReasoningModel = js ''gemini-3-flash-preview'',
       captionLength = 100\<rparr> (initial_writer\<lparr>story := js ''Once upon a time''\<rparr>))
     = [GenerateContent \<lparr> cr_model = js ''gemini-3-flash-preview'',
          cr_contents = Plain (js ''Summarize this story in ONE short sentence in English. Max 60 chars.''
                                 @ newline @ js ''Story: Once upon a time''),
          imageConfig = None \<rparr>] \<and>
   requests (handleCaption sample_env (js ''data:image/png;base64,AAAA'') 0
      (initial_state\<lparr>maxCaptionLength := 100\<rparr>))
     = [GenerateContent \<lparr> cr_model = js ''gemini-3-flash-preview'',
          cr_contents = Parts [InlineData (js ''image/png'') (Some (js ''AAAA'')),
            TextPart (js ''Suggest a short, witty, and engaging caption for this image suitable for social media. Respond with only the caption text.'')],
          imageConfig = None \<rparr>] \<and>
   \<not> str_includes (js ''Summarize this story in ONE short sentence in English. Max 60 chars.''
                      @ newline @ js ''Story: Once upon a time'') (js ''100'') \<and>
   \<not> str_includes (js ''Suggest a short, witty, and engaging caption for this image suitable for social media. Respond with only the caption text.'')
        (js ''100'')"
  by (simp add: handleCustomCaption_def generateStoryCaption_def run_writer_def writer_begin_def
      handleCustomCaption_settle_def handleCaption_def suggestCaption_def handleCaption_begin_def
      handleCaption_settle_def state_eval handler_eval parseDataUrl_def trim_def is_white_space_def
      try_fold_catch_finally_def catch_finally_def scroll_to_controls_def writer_finally_def
      onPostToPrompt_def writer_setError_def js_eval)

section \<open>The reference list\<close>

lemma length_remove_reference:
  "length (referenceImages (handleRemoveReference i st)) \<le> length (referenceImages st)"
proof -
  have "length (map snd (filter (\<lambda>(index, _). index \<noteq> i) (enumerate 0 (referenceImages st))))
      \<le> length (enumerate 0 (referenceImages st))"
    by (simp only: length_map length_filter_le)
  then show ?thesis by (simp add: handleRemoveReference_def)
qed

text \<open>
  With a handler created from the current list (its guard reads the length the list has
  now), every operation that writes the reference list keeps it within four entries, and an
  addition to a full list changes nothing but the error message.
\<close>

lemma reference_list_bounded:
  assumes "length (referenceImages st) \<le> 4"
  shows "length (referenceImages (handleSetReference (length (referenceImages st)) imageSrc st)) \<le> 4"
    and "length (referenceImages (handleUploadReference e f st)) \<le> 4"
    and "length (referenceImages (handleRemoveReference i st)) \<le> 4"
    and "length (referenceImages (fst (handleCaption_settle imageSrc outcome st))) \<le> 4"
    and "length (referenceImages (fst (handleCaptionRef1_settle ref1 outcome st))) \<le> 4"
    and "length (referenceImages (handleRemoveText_begin imageSrc index st)) \<le> 4"
    and "length (referenceImages (handleRemoveTextRef1_begin ref1 st)) \<le> 4"
    and "length (referenceImages st) = 4 \<Longrightarrow>
           handleSetReference (length (referenceImages st)) imageSrc st
             = st\<lparr>error := Some (js ''You can only have a maximum of 4 reference images.'')\<rparr>"
proof -
  show "length (referenceImages (handleSetReference (length (referenceImages st)) imageSrc st)) \<le> 4"
    using assms by (simp add: handleSetReference_def)
  show "length (referenceImages (handleUploadReference e f st)) \<le> 4"
    using assms
    by (simp add: handleUploadReference_def handleUploadReference_settle_def handleSetReference_def
        split: sum.splits)
  show "length (referenceImages (handleRemoveReference i st)) \<le> 4"
    using assms length_remove_reference[of i st] by linarith
  show "length (referenceImages (fst (handleCaption_settle imageSrc outcome st))) \<le> 4"
    using assms by (simp add: handleCaption_settle_def try_catch_finally_def setError_def split: sum.splits)
  show "length (referenceImages (fst (handleCaptionRef1_settle ref1 outcome st))) \<le> 4"
    using assms by (simp add: handleCaptionRef1_settle_def try_catch_finally_def setError_def split: sum.splits)
  show "length (referenceImages (handleRemoveText_begin imageSrc index st)) \<le> 4"
    by (simp add: handleRemoveText_begin_def)
  show "length (referenceImages (handleRemoveTextRef1_begin ref1 st)) \<le> 4"
    by (simp add: handleRemoveTextRef1_begin_def)
  show "length (referenceImages st) = 4 \<Longrightarrow>
           handleSetReference (length (referenceImages st)) imageSrc st
             = st\<lparr>error := Some (js ''You can only have a maximum of 4 reference images.'')\<rparr>"
    by (simp add: handleSetReference_def)
qed

text \<open>
  Claim C5 on the code.  The list holds three images when an upload starts; the handler of
  that render reads the file.  While the read is pending a fourth image is added.  When
  the read settles, the pending handler still holds the length 3 in its guard and appends
  to the list of four: the list holds five images and no capacity error is set.
\<close>

theorem stale_upload_exceeds_capacity:
  "(let st3 = initial_state\<lparr>referenceImages := [js ''data:image/png;base64,A1'', js ''data:image/png;base64,A2'',
                                                  js ''data:image/png;base64,A3'']\<rparr>;
        capturedLength = length (referenceImages st3);
        st4 = handleSetReference capturedLength (js ''data:image/png;base64,A4'') st3;
        st5 = handleUploadReference_settle capturedLength (Inr (js ''data:image/png;base64,A5'')) st4
    in length (referenceImages st4) = 4 \<and> length (referenceImages st5) = 5 \<and> error st5 = None)"
  by (simp add: Let_def initial_state_def handleSetReference_def handleUploadReference_settle_def)

end
